theory Spec2Isabelle
  imports Main "HOL-Library.AList"
begin

section \<open>Video view lifecycle of the stateful calling client\<close>

text \<open>
  A shallow embedding of \<^verbatim>\<open>packages/calling-stateful-client/src/StreamUtils.ts\<close> and of the
  \<^verbatim>\<open>getDeviceManager\<close> trap of \<^verbatim>\<open>StatefulCallClient.ts\<close>.

  The code runs on one JavaScript event loop. An \<^verbatim>\<open>async\<close> function runs without
  interruption up to its \<^verbatim>\<open>await\<close> and again from there once the awaited promise settles;
  anything may run in between. Each \<^verbatim>\<open>createView...\<close> function is therefore split at its
  single \<^verbatim>\<open>await renderer.createView(options)\<close>: the function of the source's name runs to
  the \<^verbatim>\<open>await\<close> and either returns or suspends with a frame of its live local variables, and
  the \<^verbatim>\<open>_resume\<close> function continues from the frame with the outcome of the awaited call,
  in whatever world the interleaved calls have left.

  Diagnostics sent to \<^verbatim>\<open>callingStatefulLogger\<close> are left out; \<^verbatim>\<open>console.warn\<close> is kept.
\<close>

subsection \<open>Data\<close>

datatype RenderStatus = NotRendered | Rendering | Rendered | Stopping

text \<open>A \<^verbatim>\<open>VideoStreamRenderer\<close> object is identified by its creation number.\<close>

type_synonym VideoStreamRenderer = nat

type_synonym VideoDeviceInfo = string
type_synonym CreateViewOptions = string
type_synonym VideoStreamRendererView = string

text \<open>
  Modelled from the spec: the \<^verbatim>\<open>Converter\<close> module is not among the sources. The spec only
  says that the produced view is published, so the declarative view is the SDK view wrapped.
\<close>

datatype VideoStreamRendererViewState = DeclarativeView VideoStreamRendererView

definition convertFromSDKToDeclarativeVideoStreamRendererView ::
  "VideoStreamRendererView \<Rightarrow> VideoStreamRendererViewState" where
  "convertFromSDKToDeclarativeVideoStreamRendererView v = DeclarativeView v"

text \<open>The SDK's stream objects, as far as this code reads them.\<close>

record RemoteVideoStream =
  sdkStreamId :: int

record LocalVideoStream =
  sdkSource :: VideoDeviceInfo

text \<open>
  The declarative streams passed in by the application. A \<^verbatim>\<open>RemoteVideoStreamState\<close> has an
  \<^verbatim>\<open>id\<close> property, a \<^verbatim>\<open>LocalVideoStreamState\<close> has none. The registry of unparented streams
  is a \<^verbatim>\<open>Map\<close> keyed by the \<^verbatim>\<open>LocalVideoStreamState\<close> object itself, so the object carries its
  identity in \<open>objectRef\<close>.
\<close>

record RemoteVideoStreamState =
  streamId :: int
  remoteView :: "VideoStreamRendererViewState option"

record LocalVideoStreamState =
  objectRef :: nat
  source :: VideoDeviceInfo
  localView :: "VideoStreamRendererViewState option"

datatype StreamState =
    RemoteStream (theRemote: RemoteVideoStreamState)
  | LocalStream (theLocal: LocalVideoStreamState)

text \<open>\<^verbatim>\<open>'id' in stream\<close>\<close>

fun hasId :: "StreamState \<Rightarrow> bool" where
  "hasId (RemoteStream _) = True"
| "hasId (LocalStream _) = False"

text \<open>
  \<^verbatim>\<open>participantId: CommunicationIdentifierKind | string\<close>. The identifier objects belong to
  the communication-common package and stay abstract (type \<open>'k\<close>);
  \<^verbatim>\<open>toFlatCommunicationIdentifier\<close> is a parameter \<open>flat\<close> of the functions that use it.
\<close>

datatype 'k ParticipantId = IdString string | IdKind 'k

text \<open>JavaScript truthiness of \<^verbatim>\<open>callId\<close> and \<^verbatim>\<open>participantId\<close>.\<close>

fun truthyCallId :: "string option \<Rightarrow> bool" where
  "truthyCallId None = False"
| "truthyCallId (Some s) = (s \<noteq> [])"

fun truthyParticipantId :: "'k ParticipantId option \<Rightarrow> bool" where
  "truthyParticipantId None = False"
| "truthyParticipantId (Some (IdString s)) = (s \<noteq> [])"
| "truthyParticipantId (Some (IdKind _)) = True"

record 's RenderInfo =
  stream :: 's
  status :: RenderStatus
  renderer :: "VideoStreamRenderer option"

type_synonym CreateViewResult = "VideoStreamRenderer \<times> VideoStreamRendererView"

subsection \<open>The world: Registry, State Store, and the outside\<close>

text \<open>
  One record holds what the functions read and write:
  \<^item> the \<^verbatim>\<open>InternalCallContext\<close> (the render registry): three \<^verbatim>\<open>Map\<close>s, as association
    lists in insertion order;
  \<^item> the part of the \<^verbatim>\<open>CallContext\<close> state the view setters write: for each stream known to
    the snapshot, its optional view;
  \<^item> the outside: how many renderers have been constructed, the \<^verbatim>\<open>dispose()\<close> calls
    received by renderers in order, the console, and the number of declarative stream objects
    allocated by the converter.
\<close>

record World =
  remoteRenderInfos ::
    "(string \<times> (string \<times> (int \<times> RemoteVideoStream RenderInfo) list) list) list"
  localRenderInfos :: "(string \<times> LocalVideoStream RenderInfo) list"
  unparentedRenderInfos :: "(LocalVideoStreamState \<times> LocalVideoStream RenderInfo) list"
  remoteStreamViews :: "(string \<times> string \<times> int) \<rightharpoonup> VideoStreamRendererViewState option"
  localStreamViews :: "string \<rightharpoonup> VideoStreamRendererViewState option"
  unparentedViews :: "LocalVideoStreamState \<rightharpoonup> VideoStreamRendererViewState"
  rendererCount :: nat
  disposeCalls :: "VideoStreamRenderer list"
  console :: "string list"
  objectCount :: nat

definition consoleWarn :: "string \<Rightarrow> World \<Rightarrow> World" where
  "consoleWarn msg w = w\<lparr>console := console w @ [msg]\<rparr>"

text \<open>\<^verbatim>\<open>new VideoStreamRenderer(stream)\<close>: a fresh handle.\<close>

definition newVideoStreamRenderer :: "World \<Rightarrow> VideoStreamRenderer \<times> World" where
  "newVideoStreamRenderer w = (rendererCount w, w\<lparr>rendererCount := Suc (rendererCount w)\<rparr>)"

text \<open>\<^verbatim>\<open>renderer.dispose()\<close>\<close>

definition dispose :: "VideoStreamRenderer \<Rightarrow> World \<Rightarrow> World" where
  "dispose r w = w\<lparr>disposeCalls := disposeCalls w @ [r]\<rparr>"

subsection \<open>Render registry\<close>

text \<open>
  Modelled from the spec: \<^verbatim>\<open>InternalCallContext.ts\<close> is not among the sources. Section 4.1 of
  the spec gives the contract: \<open>get\<close> returns the entry or nothing, \<open>set\<close> is an upsert that
  replaces the entry wholesale, \<open>delete\<close> removes it, and the remote entries of a call can be
  listed grouped by participant. \<^verbatim>\<open>Map.set\<close> keeps the position of an existing key and
  appends a new one, as \<^const>\<open>AList.update\<close> does.
\<close>

definition getRemoteRenderInfoForCall ::
  "World \<Rightarrow> string \<Rightarrow> (string \<times> (int \<times> RemoteVideoStream RenderInfo) list) list option" where
  "getRemoteRenderInfoForCall w callId = map_of (remoteRenderInfos w) callId"

text \<open>
  Modelled from the spec:
  \<^verbatim>\<open>InternalCallContext.getRemoteRenderInfoForParticipant\<close> (source
  absent), the \<open>get\<close> of section 4.1 for a remote key.
\<close>

definition getRemoteRenderInfoForParticipant ::
  "World \<Rightarrow> string \<Rightarrow> string \<Rightarrow> int \<Rightarrow> RemoteVideoStream RenderInfo option" where
  "getRemoteRenderInfoForParticipant w callId participantKey sid =
     (case map_of (remoteRenderInfos w) callId of
        None \<Rightarrow> None
      | Some callRenderInfos \<Rightarrow>
          (case map_of callRenderInfos participantKey of
             None \<Rightarrow> None
           | Some participantRenderInfos \<Rightarrow> map_of participantRenderInfos sid))"

text \<open>
  Modelled from the spec: \<^verbatim>\<open>InternalCallContext.setRemoteRenderInfo\<close>
  (source absent), the upsert of section 4.1 for a remote key: missing levels of the nested
  mapping are created.
\<close>

definition setRemoteRenderInfo ::
  "string \<Rightarrow> string \<Rightarrow> int \<Rightarrow> RemoteVideoStream \<Rightarrow> RenderStatus \<Rightarrow> VideoStreamRenderer option
     \<Rightarrow> World \<Rightarrow> World" where
  "setRemoteRenderInfo callId participantKey sid s st r w =
     (let callRenderInfos =
            (case map_of (remoteRenderInfos w) callId of None \<Rightarrow> [] | Some c \<Rightarrow> c);
          participantRenderInfos =
            (case map_of callRenderInfos participantKey of None \<Rightarrow> [] | Some p \<Rightarrow> p)
      in w\<lparr>remoteRenderInfos :=
            AList.update callId
              (AList.update participantKey
                 (AList.update sid \<lparr>stream = s, status = st, renderer = r\<rparr>
                    participantRenderInfos)
                 callRenderInfos)
              (remoteRenderInfos w)\<rparr>)"

text \<open>
  Modelled from the spec: \<^verbatim>\<open>InternalCallContext.getLocalRenderInfo\<close>
  (source absent), the \<open>get\<close> of section 4.1 for the local stream of a call.
\<close>

definition getLocalRenderInfo :: "World \<Rightarrow> string \<Rightarrow> LocalVideoStream RenderInfo option" where
  "getLocalRenderInfo w callId = map_of (localRenderInfos w) callId"

text \<open>
  Modelled from the spec: \<^verbatim>\<open>InternalCallContext.setLocalRenderInfo\<close>
  (source absent), the upsert of section 4.1 for the local stream of a call.
\<close>

definition setLocalRenderInfo ::
  "string \<Rightarrow> LocalVideoStream \<Rightarrow> RenderStatus \<Rightarrow> VideoStreamRenderer option \<Rightarrow> World \<Rightarrow> World" where
  "setLocalRenderInfo callId s st r w =
     w\<lparr>localRenderInfos :=
         AList.update callId \<lparr>stream = s, status = st, renderer = r\<rparr> (localRenderInfos w)\<rparr>"

text \<open>
  Modelled from the spec: \<^verbatim>\<open>InternalCallContext.getUnparentedRenderInfo\<close>
  (source absent), the \<open>get\<close> of section 4.1 for an unparented stream.
\<close>

definition getUnparentedRenderInfo ::
  "World \<Rightarrow> LocalVideoStreamState \<Rightarrow> LocalVideoStream RenderInfo option" where
  "getUnparentedRenderInfo w key = map_of (unparentedRenderInfos w) key"

text \<open>
  Modelled from the spec: \<^verbatim>\<open>InternalCallContext.setUnparentedRenderInfo\<close>
  (source absent), the upsert of section 4.1 for an unparented stream.
\<close>

definition setUnparentedRenderInfo ::
  "LocalVideoStreamState \<Rightarrow> LocalVideoStream \<Rightarrow> RenderStatus \<Rightarrow> VideoStreamRenderer option
     \<Rightarrow> World \<Rightarrow> World" where
  "setUnparentedRenderInfo key s st r w =
     w\<lparr>unparentedRenderInfos :=
         AList.update key \<lparr>stream = s, status = st, renderer = r\<rparr> (unparentedRenderInfos w)\<rparr>"

text \<open>
  Modelled from the spec:
  \<^verbatim>\<open>InternalCallContext.deleteUnparentedRenderInfo\<close> (source absent), the
  \<open>delete\<close> of section 4.1.
\<close>

definition deleteUnparentedRenderInfo :: "LocalVideoStreamState \<Rightarrow> World \<Rightarrow> World" where
  "deleteUnparentedRenderInfo key w =
     w\<lparr>unparentedRenderInfos := AList.delete key (unparentedRenderInfos w)\<rparr>"

subsection \<open>State Store setters\<close>

text \<open>
  Modelled from the spec: \<^verbatim>\<open>CallContext.ts\<close> is not among the sources. Section 4.2 of the spec:
  each setter attaches a view to a call/participant/stream, or to an unparented stream, and
  is a no-op when the call, participant or stream is no longer in the snapshot.
\<close>

definition setRemoteVideoStreamRendererView ::
  "string \<Rightarrow> string \<Rightarrow> int \<Rightarrow> VideoStreamRendererViewState option \<Rightarrow> World \<Rightarrow> World" where
  "setRemoteVideoStreamRendererView callId participantKey sid v w =
     (case remoteStreamViews w (callId, participantKey, sid) of
        None \<Rightarrow> w
      | Some _ \<Rightarrow> w\<lparr>remoteStreamViews := (remoteStreamViews w)((callId, participantKey, sid) \<mapsto> v)\<rparr>)"

text \<open>
  Modelled from the spec: \<^verbatim>\<open>CallContext.setLocalVideoStreamRendererView\<close>
  (source absent), section 4.2: attaches the view to the call's local stream; a no-op when the
  snapshot has none.
\<close>

definition setLocalVideoStreamRendererView ::
  "string \<Rightarrow> VideoStreamRendererViewState option \<Rightarrow> World \<Rightarrow> World" where
  "setLocalVideoStreamRendererView callId v w =
     (case localStreamViews w callId of
        None \<Rightarrow> w
      | Some _ \<Rightarrow> w\<lparr>localStreamViews := (localStreamViews w)(callId \<mapsto> v)\<rparr>)"

text \<open>
  Modelled from the spec: \<^verbatim>\<open>CallContext.setDeviceManagerUnparentedView\<close>
  (source absent), section 4.2: attaches the view to an unparented stream.
\<close>

definition setDeviceManagerUnparentedView ::
  "LocalVideoStreamState \<Rightarrow> VideoStreamRendererViewState \<Rightarrow> World \<Rightarrow> World" where
  "setDeviceManagerUnparentedView key v w = w\<lparr>unparentedViews := (unparentedViews w)(key \<mapsto> v)\<rparr>"

text \<open>
  Modelled from the spec:
  \<^verbatim>\<open>CallContext.deleteDeviceManagerUnparentedView\<close> (source absent),
  section 4.2: removes the view of an unparented stream.
\<close>

definition deleteDeviceManagerUnparentedView :: "LocalVideoStreamState \<Rightarrow> World \<Rightarrow> World" where
  "deleteDeviceManagerUnparentedView key w = w\<lparr>unparentedViews := (unparentedViews w)(key := None)\<rparr>"

text \<open>The view the snapshot shows at a place, if any.\<close>

definition remoteViewAt ::
  "World \<Rightarrow> string \<Rightarrow> string \<Rightarrow> int \<Rightarrow> VideoStreamRendererViewState option" where
  "remoteViewAt w callId participantKey sid =
     (case remoteStreamViews w (callId, participantKey, sid) of None \<Rightarrow> None | Some v \<Rightarrow> v)"

definition localViewAt :: "World \<Rightarrow> string \<Rightarrow> VideoStreamRendererViewState option" where
  "localViewAt w callId = (case localStreamViews w callId of None \<Rightarrow> None | Some v \<Rightarrow> v)"

subsection \<open>Converters used by bulk disposal\<close>

text \<open>
  Modelled from the spec: the \<^verbatim>\<open>Converter\<close> module is not among the sources. Section 4.3:
  bulk disposal "reconstructs a minimal stream-shaped handle from recorded render-info".
  The remote handle keeps the SDK stream's id; the local handle is a new object.
\<close>

definition convertSdkRemoteStreamToDeclarativeRemoteStream ::
  "RemoteVideoStream \<Rightarrow> RemoteVideoStreamState" where
  "convertSdkRemoteStreamToDeclarativeRemoteStream s =
     \<lparr>streamId = sdkStreamId s, remoteView = None\<rparr>"

text \<open>
  Modelled from the spec:
  \<^verbatim>\<open>convertSdkLocalStreamToDeclarativeLocalStream\<close> (Converter module,
  source absent), section 4.3: a new stream-shaped object made from the recorded SDK stream.
\<close>

definition convertSdkLocalStreamToDeclarativeLocalStream ::
  "LocalVideoStream \<Rightarrow> World \<Rightarrow> LocalVideoStreamState \<times> World" where
  "convertSdkLocalStreamToDeclarativeLocalStream s w =
     (\<lparr>objectRef = objectCount w, source = sdkSource s, localView = None\<rparr>,
      w\<lparr>objectCount := Suc (objectCount w)\<rparr>)"

subsection \<open>Suspension\<close>

text \<open>What \<^verbatim>\<open>await renderer.createView(options)\<close> settles to.\<close>

datatype Awaited = Created VideoStreamRendererView | Failed string

text \<open>
  An \<^verbatim>\<open>async\<close> function before its \<^verbatim>\<open>await\<close>: it has returned (its promise is resolved),
  or it is suspended. Once resumed its promise settles.
\<close>

datatype 'f Started = Returned "CreateViewResult option" | Suspended 'f

datatype Settled =
    Resolved (resolvedValue: "CreateViewResult option")
  | Rejected (rejectedWith: string)

record RemoteFrame =
  rfCallId :: string
  rfParticipantKey :: string
  rfStreamId :: int
  rfStream :: RemoteVideoStream
  rfRenderer :: VideoStreamRenderer
  rfOptions :: "CreateViewOptions option"

record LocalFrame =
  lfCallId :: string
  lfStream :: LocalVideoStream
  lfRenderer :: VideoStreamRenderer
  lfOptions :: "CreateViewOptions option"

record UnparentedFrame =
  ufKey :: LocalVideoStreamState
  ufLocalVideoStream :: LocalVideoStream
  ufRenderer :: VideoStreamRenderer
  ufOptions :: "CreateViewOptions option"

datatype Frame = InRemote RemoteFrame | InLocal LocalFrame | InUnparented UnparentedFrame

subsection \<open>Creating a view\<close>

text \<open>\<^verbatim>\<open>createViewRemoteVideo\<close>, lines 32-79: up to the \<^verbatim>\<open>await\<close>.\<close>

definition createViewRemoteVideo ::
  "('k \<Rightarrow> string) \<Rightarrow> World \<Rightarrow> string \<Rightarrow> 'k ParticipantId \<Rightarrow> RemoteVideoStreamState
     \<Rightarrow> CreateViewOptions option \<Rightarrow> World \<times> RemoteFrame Started" where
  "createViewRemoteVideo flat w callId participantId s options =
     (let sid = streamId s;
          participantKey = (case participantId of IdString k \<Rightarrow> k | IdKind k \<Rightarrow> flat k)
      in case getRemoteRenderInfoForParticipant w callId participantKey sid of
           None \<Rightarrow> (consoleWarn ''RemoteVideoStream not found in state'' w, Returned None)
         | Some renderInfo \<Rightarrow>
             if status renderInfo = Rendered
             then (consoleWarn ''RemoteVideoStream is already rendered'' w, Returned None)
             else if status renderInfo = Rendering
             then (w, Returned None)
             else if status renderInfo = Stopping
             then (consoleWarn ''RemoteVideoStream is in the middle of stopping'' w, Returned None)
             else
               (let (r, w1) = newVideoStreamRenderer w;
                    w2 = setRemoteRenderInfo callId participantKey sid (stream renderInfo)
                           Rendering None w1
                in (w2, Suspended \<lparr>rfCallId = callId, rfParticipantKey = participantKey,
                                   rfStreamId = sid, rfStream = stream renderInfo,
                                   rfRenderer = r, rfOptions = options\<rparr>)))"

text \<open>\<^verbatim>\<open>createViewRemoteVideo\<close>, lines 81-137: from the \<^verbatim>\<open>await\<close> on.\<close>

definition createViewRemoteVideo_resume :: "World \<Rightarrow> RemoteFrame \<Rightarrow> Awaited \<Rightarrow> World \<times> Settled" where
  "createViewRemoteVideo_resume w f outcome =
     (let callId = rfCallId f; participantKey = rfParticipantKey f; sid = rfStreamId f;
          r = rfRenderer f
      in case outcome of
           Failed e \<Rightarrow>
             (setRemoteRenderInfo callId participantKey sid (rfStream f) NotRendered None w,
              Rejected e)
         | Created v \<Rightarrow>
             (case getRemoteRenderInfoForParticipant w callId participantKey sid of
                None \<Rightarrow>
                  (setRemoteVideoStreamRendererView callId participantKey sid None (dispose r w),
                   Resolved None)
              | Some refreshedRenderInfo \<Rightarrow>
                  if status refreshedRenderInfo = Stopping
                  then
                    (setRemoteVideoStreamRendererView callId participantKey sid None
                       (setRemoteRenderInfo callId participantKey sid (stream refreshedRenderInfo)
                          NotRendered None (dispose r w)),
                     Resolved None)
                  else
                    (setRemoteVideoStreamRendererView callId participantKey sid
                       (Some (convertFromSDKToDeclarativeVideoStreamRendererView v))
                       (setRemoteRenderInfo callId participantKey sid (stream refreshedRenderInfo)
                          Rendered (Some r) w),
                     Resolved (Some (r, v)))))"

text \<open>\<^verbatim>\<open>createViewLocalVideo\<close>, lines 140-177: up to the \<^verbatim>\<open>await\<close>.\<close>

definition createViewLocalVideo ::
  "World \<Rightarrow> string \<Rightarrow> CreateViewOptions option \<Rightarrow> World \<times> LocalFrame Started" where
  "createViewLocalVideo w callId options =
     (case getLocalRenderInfo w callId of
        None \<Rightarrow> (consoleWarn ''LocalVideoStream not found in state'' w, Returned None)
      | Some renderInfo \<Rightarrow>
          if status renderInfo = Rendered
          then (consoleWarn ''LocalVideoStream is already rendered'' w, Returned None)
          else if status renderInfo = Rendering
          then (w, Returned None)
          else if status renderInfo = Stopping
          then (consoleWarn ''LocalVideoStream is in the middle of stopping'' w, Returned None)
          else
            (let (r, w1) = newVideoStreamRenderer w;
                 w2 = setLocalRenderInfo callId (stream renderInfo) Rendering (Some r) w1
             in (w2, Suspended \<lparr>lfCallId = callId, lfStream = stream renderInfo,
                                lfRenderer = r, lfOptions = options\<rparr>)))"

text \<open>\<^verbatim>\<open>createViewLocalVideo\<close>, lines 179-219: from the \<^verbatim>\<open>await\<close> on.\<close>

definition createViewLocalVideo_resume :: "World \<Rightarrow> LocalFrame \<Rightarrow> Awaited \<Rightarrow> World \<times> Settled" where
  "createViewLocalVideo_resume w f outcome =
     (let callId = lfCallId f; r = lfRenderer f
      in case outcome of
           Failed e \<Rightarrow> (setLocalRenderInfo callId (lfStream f) NotRendered None w, Rejected e)
         | Created v \<Rightarrow>
             (case getLocalRenderInfo w callId of
                None \<Rightarrow> (setLocalVideoStreamRendererView callId None (dispose r w), Resolved None)
              | Some refreshedRenderInfo \<Rightarrow>
                  if status refreshedRenderInfo = Stopping
                  then
                    (setLocalVideoStreamRendererView callId None
                       (setLocalRenderInfo callId (stream refreshedRenderInfo) NotRendered None
                          (dispose r w)),
                     Resolved None)
                  else
                    (setLocalVideoStreamRendererView callId
                       (Some (convertFromSDKToDeclarativeVideoStreamRendererView v))
                       (setLocalRenderInfo callId (stream refreshedRenderInfo) Rendered (Some r) w),
                     Resolved (Some (r, v)))))"

text \<open>
  \<^verbatim>\<open>createViewUnparentedVideo\<close>, lines 222-249: up to the \<^verbatim>\<open>await\<close>. An absent entry
  passes the three status tests.
\<close>

definition createViewUnparentedVideo ::
  "World \<Rightarrow> LocalVideoStreamState \<Rightarrow> CreateViewOptions option \<Rightarrow> World \<times> UnparentedFrame Started" where
  "createViewUnparentedVideo w s options =
     (let renderInfo = getUnparentedRenderInfo w s
      in if renderInfo \<noteq> None \<and> status (the renderInfo) = Rendered
         then (consoleWarn ''Unparented LocalVideoStream is already rendered'' w, Returned None)
         else if renderInfo \<noteq> None \<and> status (the renderInfo) = Rendering
         then (w, Returned None)
         else if renderInfo \<noteq> None \<and> status (the renderInfo) = Stopping
         then (consoleWarn ''Unparented LocalVideoStream is in the middle of stopping'' w,
               Returned None)
         else
           (let localVideoStream = \<lparr>sdkSource = source s\<rparr>;
                (r, w1) = newVideoStreamRenderer w;
                w2 = setUnparentedRenderInfo s localVideoStream Rendering None w1
            in (w2, Suspended \<lparr>ufKey = s, ufLocalVideoStream = localVideoStream,
                               ufRenderer = r, ufOptions = options\<rparr>)))"

text \<open>
  \<^verbatim>\<open>createViewUnparentedVideo\<close>, lines 251-291: from the \<^verbatim>\<open>await\<close> on. The branch for
  \<^verbatim>\<open>'Stopping'\<close> (lines 274-281) deletes the entry and the view and returns; it has no
  \<^verbatim>\<open>renderer.dispose()\<close>.
\<close>

definition createViewUnparentedVideo_resume ::
  "World \<Rightarrow> UnparentedFrame \<Rightarrow> Awaited \<Rightarrow> World \<times> Settled" where
  "createViewUnparentedVideo_resume w f outcome =
     (let s = ufKey f; r = ufRenderer f
      in case outcome of
           Failed e \<Rightarrow> (deleteUnparentedRenderInfo s w, Rejected e)
         | Created v \<Rightarrow>
             (case getUnparentedRenderInfo w s of
                None \<Rightarrow> (deleteDeviceManagerUnparentedView s (dispose r w), Resolved None)
              | Some refreshedRenderInfo \<Rightarrow>
                  if status refreshedRenderInfo = Stopping
                  then
                    (deleteDeviceManagerUnparentedView s (deleteUnparentedRenderInfo s w),
                     Resolved None)
                  else
                    (setDeviceManagerUnparentedView s
                       (convertFromSDKToDeclarativeVideoStreamRendererView v)
                       (setUnparentedRenderInfo s (ufLocalVideoStream f) Rendered (Some r) w),
                     Resolved (Some (r, v)))))"

subsection \<open>Disposing a view\<close>

text \<open>\<^verbatim>\<open>if (renderInfo.renderer) renderInfo.renderer.dispose()\<close>\<close>

definition disposeHeld :: "VideoStreamRenderer option \<Rightarrow> World \<Rightarrow> World" where
  "disposeHeld held w = (case held of None \<Rightarrow> w | Some r \<Rightarrow> dispose r w)"

definition disposeViewRemoteVideo ::
  "('k \<Rightarrow> string) \<Rightarrow> World \<Rightarrow> string \<Rightarrow> 'k ParticipantId \<Rightarrow> RemoteVideoStreamState \<Rightarrow> World" where
  "disposeViewRemoteVideo flat w callId participantId s =
     (let sid = streamId s;
          participantKey = (case participantId of IdString k \<Rightarrow> k | IdKind k \<Rightarrow> flat k);
          w1 = setRemoteVideoStreamRendererView callId participantKey sid None w
      in case getRemoteRenderInfoForParticipant w1 callId participantKey sid of
           None \<Rightarrow> w1
         | Some renderInfo \<Rightarrow>
             (let w2 =
                    (if status renderInfo = Rendering
                     then setRemoteRenderInfo callId participantKey sid (stream renderInfo)
                            Stopping None w1
                     else setRemoteRenderInfo callId participantKey sid (stream renderInfo)
                            NotRendered None w1)
              in disposeHeld (renderer renderInfo) w2))"

definition disposeViewLocalVideo :: "World \<Rightarrow> string \<Rightarrow> World" where
  "disposeViewLocalVideo w callId =
     (let w1 = setLocalVideoStreamRendererView callId None w
      in case getLocalRenderInfo w1 callId of
           None \<Rightarrow> w1
         | Some renderInfo \<Rightarrow>
             (let w2 =
                    (if status renderInfo = Rendering
                     then setLocalRenderInfo callId (stream renderInfo) Stopping None w1
                     else setLocalRenderInfo callId (stream renderInfo) NotRendered None w1)
              in disposeHeld (renderer renderInfo) w2))"

definition disposeViewUnparentedVideo :: "World \<Rightarrow> LocalVideoStreamState \<Rightarrow> World" where
  "disposeViewUnparentedVideo w s =
     (let w1 = deleteDeviceManagerUnparentedView s w
      in case getUnparentedRenderInfo w1 s of
           None \<Rightarrow> w1
         | Some renderInfo \<Rightarrow>
             (let w2 =
                    (if status renderInfo = Rendering
                     then setUnparentedRenderInfo s (stream renderInfo) Stopping None w1
                     else deleteUnparentedRenderInfo s w1)
              in disposeHeld (renderer renderInfo) w2))"

subsection \<open>Dispatch\<close>

fun mapStarted :: "('a \<Rightarrow> 'b) \<Rightarrow> World \<times> 'a Started \<Rightarrow> World \<times> 'b Started" where
  "mapStarted g (w, Returned x) = (w, Returned x)"
| "mapStarted g (w, Suspended f) = (w, Suspended (g f))"

text \<open>
  \<^verbatim>\<open>createView\<close>, lines 388-409. The selectors \<^const>\<open>the\<close>, \<^const>\<open>theRemote\<close> and
  \<^const>\<open>theLocal\<close> are TypeScript's narrowing; each is applied under the test that
  justifies it.
\<close>

definition createView ::
  "('k \<Rightarrow> string) \<Rightarrow> World \<Rightarrow> string option \<Rightarrow> 'k ParticipantId option \<Rightarrow> StreamState
     \<Rightarrow> CreateViewOptions option \<Rightarrow> World \<times> Frame Started" where
  "createView flat w callId participantId s options =
     (if hasId s \<and> truthyCallId callId \<and> truthyParticipantId participantId
      then mapStarted InRemote
             (createViewRemoteVideo flat w (the callId) (the participantId) (theRemote s) options)
      else if \<not> hasId s \<and> truthyCallId callId
      then mapStarted InLocal (createViewLocalVideo w (the callId) options)
      else if \<not> hasId s \<and> \<not> truthyCallId callId
      then mapStarted InUnparented (createViewUnparentedVideo w (theLocal s) options)
      else (consoleWarn ''Invalid combination of parameters'' w, Returned None))"

text \<open>The continuation of whichever function suspended.\<close>

fun resume :: "World \<Rightarrow> Frame \<Rightarrow> Awaited \<Rightarrow> World \<times> Settled" where
  "resume w (InRemote f) outcome = createViewRemoteVideo_resume w f outcome"
| "resume w (InLocal f) outcome = createViewLocalVideo_resume w f outcome"
| "resume w (InUnparented f) outcome = createViewUnparentedVideo_resume w f outcome"

text \<open>\<^verbatim>\<open>disposeView\<close>, lines 414-434.\<close>

definition disposeView ::
  "('k \<Rightarrow> string) \<Rightarrow> World \<Rightarrow> string option \<Rightarrow> 'k ParticipantId option \<Rightarrow> StreamState \<Rightarrow> World" where
  "disposeView flat w callId participantId s =
     (if hasId s \<and> truthyCallId callId \<and> truthyParticipantId participantId
      then disposeViewRemoteVideo flat w (the callId) (the participantId) (theRemote s)
      else if \<not> hasId s \<and> truthyCallId callId
      then disposeViewLocalVideo w (the callId)
      else if \<not> hasId s \<and> \<not> truthyCallId callId
      then disposeViewUnparentedVideo w (theLocal s)
      else consoleWarn ''Invalid combination of parameters'' w)"

subsection \<open>Bulk disposal\<close>

text \<open>
  \<^verbatim>\<open>disposeAllViewsFromCall\<close>, lines 440-473. The two \<^verbatim>\<open>for\<close> loops walk the live
  \<^verbatim>\<open>Map\<close>s of the registry while \<^verbatim>\<open>disposeView\<close> writes to it. \<^verbatim>\<open>disposeView\<close> only
  overwrites entries that exist (it returns when the lookup finds nothing), and it writes back
  the \<^verbatim>\<open>stream\<close> it found, so the keys, their order and every entry's \<^verbatim>\<open>stream\<close> stay as
  they were when the loop began (lemma \<open>disposeView_keeps_remote_shape\<close>). The loops read
  nothing else from the entries, so they are folds over the lists found at the start.
\<close>

definition disposeParticipantViews ::
  "('k \<Rightarrow> string) \<Rightarrow> string \<Rightarrow> string \<Rightarrow> World \<Rightarrow> (int \<times> RemoteVideoStream RenderInfo) list \<Rightarrow> World" where
  "disposeParticipantViews flat callId participantKey w participantStreams =
     foldl (\<lambda>w' remoteStreamAndRenderer.
              disposeView flat w' (Some callId) (Some (IdString participantKey))
                (RemoteStream
                   (convertSdkRemoteStreamToDeclarativeRemoteStream
                      (stream (snd remoteStreamAndRenderer)))))
       w participantStreams"

definition disposeAllViewsFromCall :: "('k \<Rightarrow> string) \<Rightarrow> World \<Rightarrow> string \<Rightarrow> World" where
  "disposeAllViewsFromCall flat w callId =
     (let w1 =
            (case getRemoteRenderInfoForCall w callId of
               None \<Rightarrow> w
             | Some callStreams \<Rightarrow>
                 foldl (\<lambda>w' entry. disposeParticipantViews flat callId (fst entry) w' (snd entry))
                   w callStreams)
      in case getLocalRenderInfo w1 callId of
           None \<Rightarrow> w1
         | Some localStreamAndRenderer \<Rightarrow>
             if renderer localStreamAndRenderer \<noteq> None
             then
               (let (s, w2) =
                      convertSdkLocalStreamToDeclarativeLocalStream
                        (stream localStreamAndRenderer) w1
                in disposeView flat w2 (Some callId) None (LocalStream s))
             else w1)"

subsection \<open>The device manager singleton\<close>

text \<open>
  \<^verbatim>\<open>ProxyCallClient.get\<close>, case \<^verbatim>\<open>'getDeviceManager'\<close> (\<^verbatim>\<open>StatefulCallClient.ts\<close>, lines
  180-201). The SDK's \<^verbatim>\<open>DeviceManager\<close> objects are compared by reference, so an object is
  its identity. The body past \<^verbatim>\<open>await target.getDeviceManager()\<close> runs without
  interruption; \<open>SdkAnswer\<close> is what the awaited call settled to.
\<close>

type_synonym DeviceManager = nat

text \<open>
  Modelled from the spec: \<^verbatim>\<open>DeviceManagerDeclarative.ts\<close> is not among the sources. Section 4.4
  of the spec: the interception layer wraps the SDK's device manager; the wrapper is modelled
  as the wrapped object under a constructor.
\<close>

datatype DeclarativeDeviceManager = DeclarativeDeviceManager DeviceManager

text \<open>
  Modelled from the spec: \<^verbatim>\<open>deviceManagerDeclaratify\<close>
  (\<^verbatim>\<open>DeviceManagerDeclarative.ts\<close>, source absent), section 4.4: wraps
  the SDK's device manager.
\<close>

definition deviceManagerDeclaratify :: "DeviceManager \<Rightarrow> DeclarativeDeviceManager" where
  "deviceManagerDeclaratify dm = DeclarativeDeviceManager dm"

text \<open>
  The fields \<^verbatim>\<open>_deviceManager\<close> and \<^verbatim>\<open>_sdkDeviceManager\<close> of the proxy, and the error log of
  the State Store that \<^verbatim>\<open>withAsyncErrorTeedToState\<close> writes.
\<close>

record ProxyCallClient =
  proxyDeviceManager :: "DeclarativeDeviceManager option"
  proxySdkDeviceManager :: "DeviceManager option"
  latestErrors :: "string \<rightharpoonup> string"

definition newProxyCallClient :: ProxyCallClient where
  "newProxyCallClient =
     \<lparr>proxyDeviceManager = None, proxySdkDeviceManager = None, latestErrors = Map.empty\<rparr>"

datatype SdkAnswer = SdkReturned DeviceManager | SdkThrew string

definition multipleDeviceManagerError :: string where
  "multipleDeviceManagerError =
     ''Multiple DeviceManager not supported. This means a incompatible version of communication-calling is '' @
     ''used OR calling declarative was not properly updated to communication-calling version.''"

text \<open>
  Modelled from the spec: \<^verbatim>\<open>CallContext.ts\<close> is not among the sources. Section 4.2 of the spec:
  if the wrapped operation fails, an error entry is recorded under the operation's name (one
  entry per name, last write wins) and the error is surfaced again to the caller.
\<close>

definition withAsyncErrorTeedToState ::
  "string \<Rightarrow> ProxyCallClient \<times> (string + 'a) \<Rightarrow> ProxyCallClient \<times> (string + 'a)" where
  "withAsyncErrorTeedToState name r =
     (case snd r of
        Inl e \<Rightarrow> ((fst r)\<lparr>latestErrors := (latestErrors (fst r))(name \<mapsto> e)\<rparr>, Inl e)
      | Inr v \<Rightarrow> r)"

definition getDeviceManager ::
  "ProxyCallClient \<Rightarrow> SdkAnswer \<Rightarrow> ProxyCallClient \<times> (string + DeclarativeDeviceManager option)" where
  "getDeviceManager this answer =
     withAsyncErrorTeedToState ''CallClient.getDeviceManager''
       (case answer of
          SdkThrew e \<Rightarrow> (this, Inl e)
        | SdkReturned deviceManager \<Rightarrow>
            if proxySdkDeviceManager this \<noteq> None
            then
              if proxySdkDeviceManager this = Some deviceManager
              then (this, Inr (proxyDeviceManager this))
              else (this, Inl multipleDeviceManagerError)
            else
              (let this1 = this\<lparr>proxySdkDeviceManager := Some deviceManager\<rparr>;
                   this2 = this1\<lparr>proxyDeviceManager :=
                                   Some (deviceManagerDeclaratify deviceManager)\<rparr>
               in (this2, Inr (proxyDeviceManager this2))))"

text \<open>A sequence of calls, each with what the SDK answered to it.\<close>

fun getDeviceManagerCalls ::
  "ProxyCallClient \<Rightarrow> SdkAnswer list
     \<Rightarrow> ProxyCallClient \<times> (string + DeclarativeDeviceManager option) list" where
  "getDeviceManagerCalls this [] = (this, [])"
| "getDeviceManagerCalls this (a # as) =
     (let (this1, r) = getDeviceManager this a;
          (this2, rs) = getDeviceManagerCalls this1 as
      in (this2, r # rs))"

text \<open>
  What a call is to answer once the SDK's instance \<open>d0\<close> is cached: the SDK's own failure,
  the cached wrapper for the same instance, the mismatch error for another.
\<close>

definition expectedAnswer :: "DeviceManager \<Rightarrow> SdkAnswer \<Rightarrow> string + DeclarativeDeviceManager option" where
  "expectedAnswer d0 a =
     (case a of
        SdkThrew e \<Rightarrow> Inl e
      | SdkReturned d \<Rightarrow>
          if d = d0 then Inr (Some (deviceManagerDeclaratify d0))
          else Inl multipleDeviceManagerError)"

subsection \<open>Vocabulary of the properties\<close>

text \<open>
  A render key names one binding of a stream to a renderer: a remote stream of a participant
  of a call, the local stream of a call, or an unparented stream. \<open>requestKey\<close> is the key
  a request is about, by the tests of \<^verbatim>\<open>createView\<close> and \<^verbatim>\<open>disposeView\<close>; it is \<open>None\<close>
  for the combinations they reject.
\<close>

datatype RenderKey =
    RemoteKey string string int
  | LocalKey string
  | UnparentedKey LocalVideoStreamState

definition requestKey ::
  "('k \<Rightarrow> string) \<Rightarrow> string option \<Rightarrow> 'k ParticipantId option \<Rightarrow> StreamState \<Rightarrow> RenderKey option" where
  "requestKey flat callId participantId s =
     (if hasId s \<and> truthyCallId callId \<and> truthyParticipantId participantId
      then Some (RemoteKey (the callId)
                   (case the participantId of IdString k \<Rightarrow> k | IdKind k \<Rightarrow> flat k)
                   (streamId (theRemote s)))
      else if \<not> hasId s \<and> truthyCallId callId
      then Some (LocalKey (the callId))
      else if \<not> hasId s \<and> \<not> truthyCallId callId
      then Some (UnparentedKey (theLocal s))
      else None)"

fun registryStatus :: "World \<Rightarrow> RenderKey \<Rightarrow> RenderStatus option" where
  "registryStatus w (RemoteKey c p s) =
     map_option status (getRemoteRenderInfoForParticipant w c p s)"
| "registryStatus w (LocalKey c) = map_option status (getLocalRenderInfo w c)"
| "registryStatus w (UnparentedKey k) = map_option status (getUnparentedRenderInfo w k)"

fun registryRenderer :: "World \<Rightarrow> RenderKey \<Rightarrow> VideoStreamRenderer option" where
  "registryRenderer w (RemoteKey c p s) =
     (case getRemoteRenderInfoForParticipant w c p s of None \<Rightarrow> None | Some i \<Rightarrow> renderer i)"
| "registryRenderer w (LocalKey c) =
     (case getLocalRenderInfo w c of None \<Rightarrow> None | Some i \<Rightarrow> renderer i)"
| "registryRenderer w (UnparentedKey k) =
     (case getUnparentedRenderInfo w k of None \<Rightarrow> None | Some i \<Rightarrow> renderer i)"

text \<open>The key and the renderer a suspended call holds in its frame.\<close>

fun frameKey :: "Frame \<Rightarrow> RenderKey" where
  "frameKey (InRemote f) = RemoteKey (rfCallId f) (rfParticipantKey f) (rfStreamId f)"
| "frameKey (InLocal f) = LocalKey (lfCallId f)"
| "frameKey (InUnparented f) = UnparentedKey (ufKey f)"

fun frameRenderer :: "Frame \<Rightarrow> VideoStreamRenderer" where
  "frameRenderer (InRemote f) = rfRenderer f"
| "frameRenderer (InLocal f) = lfRenderer f"
| "frameRenderer (InUnparented f) = ufRenderer f"

text \<open>
  What the dispose protocol leaves of an entry it finds: the stream as it was, no renderer,
  and status \<^verbatim>\<open>'Stopping'\<close> if it was \<^verbatim>\<open>'Rendering'\<close>, else \<^verbatim>\<open>'NotRendered'\<close>.
\<close>

definition afterDispose :: "'s RenderInfo \<Rightarrow> 's RenderInfo" where
  "afterDispose i =
     \<lparr>stream = stream i,
      status = (if status i = Rendering then Stopping else NotRendered),
      renderer = None\<rparr>"

text \<open>The renderer an entry holds, as a list of at most one handle.\<close>

definition heldRenderer :: "'s RenderInfo option \<Rightarrow> VideoStreamRenderer list" where
  "heldRenderer e =
     (case e of None \<Rightarrow> [] | Some i \<Rightarrow> (case renderer i of None \<Rightarrow> [] | Some r \<Rightarrow> [r]))"

text \<open>
  The renderers held by the entries of a call, in the order \<^verbatim>\<open>disposeAllViewsFromCall\<close> meets
  them: the remote entries participant by participant, then the local entry.
\<close>

definition renderersHeldByCall :: "World \<Rightarrow> string \<Rightarrow> VideoStreamRenderer list" where
  "renderersHeldByCall w callId =
     concat (map (\<lambda>entry. concat (map (\<lambda>e. heldRenderer (Some (snd e))) (snd entry)))
               (case getRemoteRenderInfoForCall w callId of None \<Rightarrow> [] | Some cs \<Rightarrow> cs))
     @ heldRenderer (getLocalRenderInfo w callId)"

text \<open>
  A call as the registry tracks it: its id is a non-empty string, and so is each participant
  key; the \<^verbatim>\<open>Map\<close>s have one entry per key; each remote entry sits under the id of the stream
  it stores.
\<close>

definition trackedCall :: "World \<Rightarrow> string \<Rightarrow> bool" where
  "trackedCall w callId =
     (callId \<noteq> [] \<and>
      (case getRemoteRenderInfoForCall w callId of
         None \<Rightarrow> True
       | Some cs \<Rightarrow>
           distinct (map fst cs) \<and>
           (\<forall>entry \<in> set cs.
              fst entry \<noteq> [] \<and> distinct (map fst (snd entry)) \<and>
              (\<forall>e \<in> set (snd entry). sdkStreamId (stream (snd e)) = fst e))))"


text \<open>
  The keys of a call's remote entries in iteration order, and the remote dispose applied to a
  list of keys in turn (used to reason about the loops of \<^verbatim>\<open>disposeAllViewsFromCall\<close>).
\<close>

definition callKeys ::
  "(string \<times> (int \<times> RemoteVideoStream RenderInfo) list) list \<Rightarrow> (string \<times> int) list" where
  "callKeys callStreams =
     concat (map (\<lambda>entry. map (\<lambda>e. (fst entry, fst e)) (snd entry)) callStreams)"

definition disposeRemoteKeys ::
  "('k \<Rightarrow> string) \<Rightarrow> string \<Rightarrow> World \<Rightarrow> (string \<times> int) list \<Rightarrow> World" where
  "disposeRemoteKeys flat callId w ks =
     foldl (\<lambda>w' k. disposeViewRemoteVideo flat w' callId (IdString (fst k))
                      \<lparr>streamId = snd k, remoteView = None\<rparr>) w ks"

text \<open>
  The remote registry without status and renderer: the keys in order, and the stream each
  entry stores.
\<close>

definition remoteShape ::
  "World \<Rightarrow> (string \<times> (string \<times> (int \<times> RemoteVideoStream) list) list) list" where
  "remoteShape w =
     map (\<lambda>c. (fst c, map (\<lambda>p. (fst p, map (\<lambda>e. (fst e, stream (snd e))) (snd p))) (snd c)))
       (remoteRenderInfos w)"

text \<open>The second world is the first but for what was written to the console.\<close>

definition onlyConsoleDiffers :: "World \<Rightarrow> World \<Rightarrow> bool" where
  "onlyConsoleDiffers w' w = (w'\<lparr>console := console w\<rparr> = w)"

subsection \<open>Sample worlds\<close>

definition emptyWorld :: World where
  "emptyWorld =
     \<lparr>remoteRenderInfos = [], localRenderInfos = [], unparentedRenderInfos = [],
      remoteStreamViews = Map.empty, localStreamViews = Map.empty, unparentedViews = Map.empty,
      rendererCount = 0, disposeCalls = [], console = [], objectCount = 0\<rparr>"

definition sampleFlat :: "string \<Rightarrow> string" where
  "sampleFlat k = k"

definition camera :: LocalVideoStreamState where
  "camera = \<lparr>objectRef = 0, source = ''camera'', localView = None\<rparr>"

definition otherCamera :: LocalVideoStreamState where
  "otherCamera = \<lparr>objectRef = 1, source = ''other'', localView = None\<rparr>"

definition remoteOne :: RemoteVideoStreamState where
  "remoteOne = \<lparr>streamId = 1, remoteView = None\<rparr>"

text \<open>
  Call \<open>c1\<close> with participant \<open>p1\<close>, whose stream 1 is known to registry and snapshot, and a
  local stream; nothing is rendered.
\<close>

definition idleCall :: World where
  "idleCall =
     emptyWorld
       \<lparr>remoteRenderInfos :=
          [(''c1'', [(''p1'', [(1, \<lparr>stream = \<lparr>sdkStreamId = 1\<rparr>, status = NotRendered,
                                     renderer = None\<rparr>)])])],
        localRenderInfos :=
          [(''c1'', \<lparr>stream = \<lparr>sdkSource = ''camera''\<rparr>, status = NotRendered, renderer = None\<rparr>)],
        remoteStreamViews := [(''c1'', ''p1'', 1) \<mapsto> None],
        localStreamViews := [''c1'' \<mapsto> None]\<rparr>"

text \<open>
  Call \<open>c1\<close> in full swing: stream 1 of \<open>p1\<close> rendered by renderer 7, stream 2 being
  rendered, the local stream rendered by renderer 8.
\<close>

definition busyCall :: World where
  "busyCall =
     emptyWorld
       \<lparr>remoteRenderInfos :=
          [(''c1'', [(''p1'', [(1, \<lparr>stream = \<lparr>sdkStreamId = 1\<rparr>, status = Rendered,
                                     renderer = Some 7\<rparr>),
                               (2, \<lparr>stream = \<lparr>sdkStreamId = 2\<rparr>, status = Rendering,
                                     renderer = None\<rparr>)])])],
        localRenderInfos :=
          [(''c1'', \<lparr>stream = \<lparr>sdkSource = ''camera''\<rparr>, status = Rendered, renderer = Some 8\<rparr>)],
        remoteStreamViews := [(''c1'', ''p1'', 1) \<mapsto> Some (DeclarativeView ''v1''),
                              (''c1'', ''p1'', 2) \<mapsto> None],
        localStreamViews := [''c1'' \<mapsto> Some (DeclarativeView ''v0'')],
        rendererCount := 10\<rparr>"

text \<open>\<open>idleCall\<close> once a view for stream 1 of \<open>p1\<close> is being created.\<close>

definition afterRemoteStart :: World where
  "afterRemoteStart =
     setRemoteRenderInfo ''c1'' ''p1'' 1 \<lparr>sdkStreamId = 1\<rparr> Rendering None
       (idleCall\<lparr>rendererCount := 1\<rparr>)"

text \<open>
  Call \<open>c1\<close> whose local view was disposed while it was being created: the entry is
  \<^verbatim>\<open>'Stopping'\<close> and holds no renderer.
\<close>

definition stoppingLocal :: World where
  "stoppingLocal =
     emptyWorld
       \<lparr>localRenderInfos :=
          [(''c1'', \<lparr>stream = \<lparr>sdkSource = ''camera''\<rparr>, status = Stopping, renderer = None\<rparr>)],
        localStreamViews := [''c1'' \<mapsto> None],
        rendererCount := 1, disposeCalls := [0]\<rparr>"

section \<open>Properties\<close>

subsection \<open>What each write leaves alone\<close>

named_theorems write_defs \<open>definitions of the writes to the world\<close>

declare setRemoteRenderInfo_def [write_defs]
declare setLocalRenderInfo_def [write_defs]
declare setUnparentedRenderInfo_def [write_defs]
declare deleteUnparentedRenderInfo_def [write_defs]
declare setRemoteVideoStreamRendererView_def [write_defs]
declare setLocalVideoStreamRendererView_def [write_defs]
declare setDeviceManagerUnparentedView_def [write_defs]
declare deleteDeviceManagerUnparentedView_def [write_defs]
declare dispose_def [write_defs]
declare consoleWarn_def [write_defs]
declare disposeHeld_def [write_defs]

lemma setRemoteRenderInfo_others [simp]:
  "localRenderInfos (setRemoteRenderInfo c p s x st r w) = localRenderInfos w"
  "unparentedRenderInfos (setRemoteRenderInfo c p s x st r w) = unparentedRenderInfos w"
  "remoteStreamViews (setRemoteRenderInfo c p s x st r w) = remoteStreamViews w"
  "localStreamViews (setRemoteRenderInfo c p s x st r w) = localStreamViews w"
  "unparentedViews (setRemoteRenderInfo c p s x st r w) = unparentedViews w"
  "rendererCount (setRemoteRenderInfo c p s x st r w) = rendererCount w"
  "disposeCalls (setRemoteRenderInfo c p s x st r w) = disposeCalls w"
  "console (setRemoteRenderInfo c p s x st r w) = console w"
  "objectCount (setRemoteRenderInfo c p s x st r w) = objectCount w"
  by (simp_all add: write_defs Let_def split: option.splits)

lemma setLocalRenderInfo_others [simp]:
  "remoteRenderInfos (setLocalRenderInfo c x st r w) = remoteRenderInfos w"
  "unparentedRenderInfos (setLocalRenderInfo c x st r w) = unparentedRenderInfos w"
  "remoteStreamViews (setLocalRenderInfo c x st r w) = remoteStreamViews w"
  "localStreamViews (setLocalRenderInfo c x st r w) = localStreamViews w"
  "unparentedViews (setLocalRenderInfo c x st r w) = unparentedViews w"
  "rendererCount (setLocalRenderInfo c x st r w) = rendererCount w"
  "disposeCalls (setLocalRenderInfo c x st r w) = disposeCalls w"
  "console (setLocalRenderInfo c x st r w) = console w"
  "objectCount (setLocalRenderInfo c x st r w) = objectCount w"
  by (simp_all add: write_defs Let_def split: option.splits)

lemma setUnparentedRenderInfo_others [simp]:
  "remoteRenderInfos (setUnparentedRenderInfo k x st r w) = remoteRenderInfos w"
  "localRenderInfos (setUnparentedRenderInfo k x st r w) = localRenderInfos w"
  "remoteStreamViews (setUnparentedRenderInfo k x st r w) = remoteStreamViews w"
  "localStreamViews (setUnparentedRenderInfo k x st r w) = localStreamViews w"
  "unparentedViews (setUnparentedRenderInfo k x st r w) = unparentedViews w"
  "rendererCount (setUnparentedRenderInfo k x st r w) = rendererCount w"
  "disposeCalls (setUnparentedRenderInfo k x st r w) = disposeCalls w"
  "console (setUnparentedRenderInfo k x st r w) = console w"
  "objectCount (setUnparentedRenderInfo k x st r w) = objectCount w"
  by (simp_all add: write_defs Let_def split: option.splits)

lemma deleteUnparentedRenderInfo_others [simp]:
  "remoteRenderInfos (deleteUnparentedRenderInfo k w) = remoteRenderInfos w"
  "localRenderInfos (deleteUnparentedRenderInfo k w) = localRenderInfos w"
  "remoteStreamViews (deleteUnparentedRenderInfo k w) = remoteStreamViews w"
  "localStreamViews (deleteUnparentedRenderInfo k w) = localStreamViews w"
  "unparentedViews (deleteUnparentedRenderInfo k w) = unparentedViews w"
  "rendererCount (deleteUnparentedRenderInfo k w) = rendererCount w"
  "disposeCalls (deleteUnparentedRenderInfo k w) = disposeCalls w"
  "console (deleteUnparentedRenderInfo k w) = console w"
  "objectCount (deleteUnparentedRenderInfo k w) = objectCount w"
  by (simp_all add: write_defs Let_def split: option.splits)

lemma setRemoteVideoStreamRendererView_others [simp]:
  "remoteRenderInfos (setRemoteVideoStreamRendererView c p s v w) = remoteRenderInfos w"
  "localRenderInfos (setRemoteVideoStreamRendererView c p s v w) = localRenderInfos w"
  "unparentedRenderInfos (setRemoteVideoStreamRendererView c p s v w) = unparentedRenderInfos w"
  "localStreamViews (setRemoteVideoStreamRendererView c p s v w) = localStreamViews w"
  "unparentedViews (setRemoteVideoStreamRendererView c p s v w) = unparentedViews w"
  "rendererCount (setRemoteVideoStreamRendererView c p s v w) = rendererCount w"
  "disposeCalls (setRemoteVideoStreamRendererView c p s v w) = disposeCalls w"
  "console (setRemoteVideoStreamRendererView c p s v w) = console w"
  "objectCount (setRemoteVideoStreamRendererView c p s v w) = objectCount w"
  by (simp_all add: write_defs Let_def split: option.splits)

lemma setLocalVideoStreamRendererView_others [simp]:
  "remoteRenderInfos (setLocalVideoStreamRendererView c v w) = remoteRenderInfos w"
  "localRenderInfos (setLocalVideoStreamRendererView c v w) = localRenderInfos w"
  "unparentedRenderInfos (setLocalVideoStreamRendererView c v w) = unparentedRenderInfos w"
  "remoteStreamViews (setLocalVideoStreamRendererView c v w) = remoteStreamViews w"
  "unparentedViews (setLocalVideoStreamRendererView c v w) = unparentedViews w"
  "rendererCount (setLocalVideoStreamRendererView c v w) = rendererCount w"
  "disposeCalls (setLocalVideoStreamRendererView c v w) = disposeCalls w"
  "console (setLocalVideoStreamRendererView c v w) = console w"
  "objectCount (setLocalVideoStreamRendererView c v w) = objectCount w"
  by (simp_all add: write_defs Let_def split: option.splits)

lemma setDeviceManagerUnparentedView_others [simp]:
  "remoteRenderInfos (setDeviceManagerUnparentedView k u w) = remoteRenderInfos w"
  "localRenderInfos (setDeviceManagerUnparentedView k u w) = localRenderInfos w"
  "unparentedRenderInfos (setDeviceManagerUnparentedView k u w) = unparentedRenderInfos w"
  "remoteStreamViews (setDeviceManagerUnparentedView k u w) = remoteStreamViews w"
  "localStreamViews (setDeviceManagerUnparentedView k u w) = localStreamViews w"
  "rendererCount (setDeviceManagerUnparentedView k u w) = rendererCount w"
  "disposeCalls (setDeviceManagerUnparentedView k u w) = disposeCalls w"
  "console (setDeviceManagerUnparentedView k u w) = console w"
  "objectCount (setDeviceManagerUnparentedView k u w) = objectCount w"
  by (simp_all add: write_defs Let_def split: option.splits)

lemma deleteDeviceManagerUnparentedView_others [simp]:
  "remoteRenderInfos (deleteDeviceManagerUnparentedView k w) = remoteRenderInfos w"
  "localRenderInfos (deleteDeviceManagerUnparentedView k w) = localRenderInfos w"
  "unparentedRenderInfos (deleteDeviceManagerUnparentedView k w) = unparentedRenderInfos w"
  "remoteStreamViews (deleteDeviceManagerUnparentedView k w) = remoteStreamViews w"
  "localStreamViews (deleteDeviceManagerUnparentedView k w) = localStreamViews w"
  "rendererCount (deleteDeviceManagerUnparentedView k w) = rendererCount w"
  "disposeCalls (deleteDeviceManagerUnparentedView k w) = disposeCalls w"
  "console (deleteDeviceManagerUnparentedView k w) = console w"
  "objectCount (deleteDeviceManagerUnparentedView k w) = objectCount w"
  by (simp_all add: write_defs Let_def split: option.splits)

lemma dispose_others [simp]:
  "remoteRenderInfos (dispose d w) = remoteRenderInfos w"
  "localRenderInfos (dispose d w) = localRenderInfos w"
  "unparentedRenderInfos (dispose d w) = unparentedRenderInfos w"
  "remoteStreamViews (dispose d w) = remoteStreamViews w"
  "localStreamViews (dispose d w) = localStreamViews w"
  "unparentedViews (dispose d w) = unparentedViews w"
  "rendererCount (dispose d w) = rendererCount w"
  "console (dispose d w) = console w"
  "objectCount (dispose d w) = objectCount w"
  by (simp_all add: write_defs Let_def split: option.splits)

lemma consoleWarn_others [simp]:
  "remoteRenderInfos (consoleWarn msg w) = remoteRenderInfos w"
  "localRenderInfos (consoleWarn msg w) = localRenderInfos w"
  "unparentedRenderInfos (consoleWarn msg w) = unparentedRenderInfos w"
  "remoteStreamViews (consoleWarn msg w) = remoteStreamViews w"
  "localStreamViews (consoleWarn msg w) = localStreamViews w"
  "unparentedViews (consoleWarn msg w) = unparentedViews w"
  "rendererCount (consoleWarn msg w) = rendererCount w"
  "disposeCalls (consoleWarn msg w) = disposeCalls w"
  "objectCount (consoleWarn msg w) = objectCount w"
  by (simp_all add: write_defs Let_def split: option.splits)

lemma disposeHeld_others [simp]:
  "remoteRenderInfos (disposeHeld h w) = remoteRenderInfos w"
  "localRenderInfos (disposeHeld h w) = localRenderInfos w"
  "unparentedRenderInfos (disposeHeld h w) = unparentedRenderInfos w"
  "remoteStreamViews (disposeHeld h w) = remoteStreamViews w"
  "localStreamViews (disposeHeld h w) = localStreamViews w"
  "unparentedViews (disposeHeld h w) = unparentedViews w"
  "rendererCount (disposeHeld h w) = rendererCount w"
  "console (disposeHeld h w) = console w"
  "objectCount (disposeHeld h w) = objectCount w"
  by (simp_all add: write_defs Let_def split: option.splits)

text \<open>Each lookup reads one field of the world.\<close>

lemma getRemoteRenderInfoForParticipant_cong:
  "remoteRenderInfos w' = remoteRenderInfos w \<Longrightarrow>
   getRemoteRenderInfoForParticipant w' = getRemoteRenderInfoForParticipant w"
  by (simp add: fun_eq_iff getRemoteRenderInfoForParticipant_def)

lemma getRemoteRenderInfoForCall_cong:
  "remoteRenderInfos w' = remoteRenderInfos w \<Longrightarrow>
   getRemoteRenderInfoForCall w' = getRemoteRenderInfoForCall w"
  by (simp add: fun_eq_iff getRemoteRenderInfoForCall_def)

lemma getLocalRenderInfo_cong:
  "localRenderInfos w' = localRenderInfos w \<Longrightarrow> getLocalRenderInfo w' = getLocalRenderInfo w"
  by (simp add: fun_eq_iff getLocalRenderInfo_def)

lemma getUnparentedRenderInfo_cong:
  "unparentedRenderInfos w' = unparentedRenderInfos w \<Longrightarrow>
   getUnparentedRenderInfo w' = getUnparentedRenderInfo w"
  by (simp add: fun_eq_iff getUnparentedRenderInfo_def)

lemma remoteViewAt_cong:
  "remoteStreamViews w' = remoteStreamViews w \<Longrightarrow> remoteViewAt w' = remoteViewAt w"
  by (simp add: fun_eq_iff remoteViewAt_def)

lemma localViewAt_cong:
  "localStreamViews w' = localStreamViews w \<Longrightarrow> localViewAt w' = localViewAt w"
  by (simp add: fun_eq_iff localViewAt_def)

lemma getRemoteRenderInfoForParticipant_unread [simp]:
  "getRemoteRenderInfoForParticipant (setLocalRenderInfo c x st r w) = getRemoteRenderInfoForParticipant w"
  "getRemoteRenderInfoForParticipant (setUnparentedRenderInfo k x st r w) = getRemoteRenderInfoForParticipant w"
  "getRemoteRenderInfoForParticipant (deleteUnparentedRenderInfo k w) = getRemoteRenderInfoForParticipant w"
  "getRemoteRenderInfoForParticipant (setRemoteVideoStreamRendererView c p s v w) = getRemoteRenderInfoForParticipant w"
  "getRemoteRenderInfoForParticipant (setLocalVideoStreamRendererView c v w) = getRemoteRenderInfoForParticipant w"
  "getRemoteRenderInfoForParticipant (setDeviceManagerUnparentedView k u w) = getRemoteRenderInfoForParticipant w"
  "getRemoteRenderInfoForParticipant (deleteDeviceManagerUnparentedView k w) = getRemoteRenderInfoForParticipant w"
  "getRemoteRenderInfoForParticipant (dispose d w) = getRemoteRenderInfoForParticipant w"
  "getRemoteRenderInfoForParticipant (consoleWarn msg w) = getRemoteRenderInfoForParticipant w"
  "getRemoteRenderInfoForParticipant (disposeHeld h w) = getRemoteRenderInfoForParticipant w"
  "getRemoteRenderInfoForParticipant (w\<lparr>localRenderInfos := y1\<rparr>) = getRemoteRenderInfoForParticipant w"
  "getRemoteRenderInfoForParticipant (w\<lparr>unparentedRenderInfos := y2\<rparr>) = getRemoteRenderInfoForParticipant w"
  "getRemoteRenderInfoForParticipant (w\<lparr>remoteStreamViews := y3\<rparr>) = getRemoteRenderInfoForParticipant w"
  "getRemoteRenderInfoForParticipant (w\<lparr>localStreamViews := y4\<rparr>) = getRemoteRenderInfoForParticipant w"
  "getRemoteRenderInfoForParticipant (w\<lparr>unparentedViews := y5\<rparr>) = getRemoteRenderInfoForParticipant w"
  "getRemoteRenderInfoForParticipant (w\<lparr>rendererCount := y6\<rparr>) = getRemoteRenderInfoForParticipant w"
  "getRemoteRenderInfoForParticipant (w\<lparr>disposeCalls := y7\<rparr>) = getRemoteRenderInfoForParticipant w"
  "getRemoteRenderInfoForParticipant (w\<lparr>console := y8\<rparr>) = getRemoteRenderInfoForParticipant w"
  "getRemoteRenderInfoForParticipant (w\<lparr>objectCount := y9\<rparr>) = getRemoteRenderInfoForParticipant w"
  by (rule getRemoteRenderInfoForParticipant_cong, simp)+

lemma getRemoteRenderInfoForCall_unread [simp]:
  "getRemoteRenderInfoForCall (setLocalRenderInfo c x st r w) = getRemoteRenderInfoForCall w"
  "getRemoteRenderInfoForCall (setUnparentedRenderInfo k x st r w) = getRemoteRenderInfoForCall w"
  "getRemoteRenderInfoForCall (deleteUnparentedRenderInfo k w) = getRemoteRenderInfoForCall w"
  "getRemoteRenderInfoForCall (setRemoteVideoStreamRendererView c p s v w) = getRemoteRenderInfoForCall w"
  "getRemoteRenderInfoForCall (setLocalVideoStreamRendererView c v w) = getRemoteRenderInfoForCall w"
  "getRemoteRenderInfoForCall (setDeviceManagerUnparentedView k u w) = getRemoteRenderInfoForCall w"
  "getRemoteRenderInfoForCall (deleteDeviceManagerUnparentedView k w) = getRemoteRenderInfoForCall w"
  "getRemoteRenderInfoForCall (dispose d w) = getRemoteRenderInfoForCall w"
  "getRemoteRenderInfoForCall (consoleWarn msg w) = getRemoteRenderInfoForCall w"
  "getRemoteRenderInfoForCall (disposeHeld h w) = getRemoteRenderInfoForCall w"
  "getRemoteRenderInfoForCall (w\<lparr>localRenderInfos := y1\<rparr>) = getRemoteRenderInfoForCall w"
  "getRemoteRenderInfoForCall (w\<lparr>unparentedRenderInfos := y2\<rparr>) = getRemoteRenderInfoForCall w"
  "getRemoteRenderInfoForCall (w\<lparr>remoteStreamViews := y3\<rparr>) = getRemoteRenderInfoForCall w"
  "getRemoteRenderInfoForCall (w\<lparr>localStreamViews := y4\<rparr>) = getRemoteRenderInfoForCall w"
  "getRemoteRenderInfoForCall (w\<lparr>unparentedViews := y5\<rparr>) = getRemoteRenderInfoForCall w"
  "getRemoteRenderInfoForCall (w\<lparr>rendererCount := y6\<rparr>) = getRemoteRenderInfoForCall w"
  "getRemoteRenderInfoForCall (w\<lparr>disposeCalls := y7\<rparr>) = getRemoteRenderInfoForCall w"
  "getRemoteRenderInfoForCall (w\<lparr>console := y8\<rparr>) = getRemoteRenderInfoForCall w"
  "getRemoteRenderInfoForCall (w\<lparr>objectCount := y9\<rparr>) = getRemoteRenderInfoForCall w"
  by (rule getRemoteRenderInfoForCall_cong, simp)+

lemma getLocalRenderInfo_unread [simp]:
  "getLocalRenderInfo (setRemoteRenderInfo c p s xr st r w) = getLocalRenderInfo w"
  "getLocalRenderInfo (setUnparentedRenderInfo k x st r w) = getLocalRenderInfo w"
  "getLocalRenderInfo (deleteUnparentedRenderInfo k w) = getLocalRenderInfo w"
  "getLocalRenderInfo (setRemoteVideoStreamRendererView c p s v w) = getLocalRenderInfo w"
  "getLocalRenderInfo (setLocalVideoStreamRendererView c v w) = getLocalRenderInfo w"
  "getLocalRenderInfo (setDeviceManagerUnparentedView k u w) = getLocalRenderInfo w"
  "getLocalRenderInfo (deleteDeviceManagerUnparentedView k w) = getLocalRenderInfo w"
  "getLocalRenderInfo (dispose d w) = getLocalRenderInfo w"
  "getLocalRenderInfo (consoleWarn msg w) = getLocalRenderInfo w"
  "getLocalRenderInfo (disposeHeld h w) = getLocalRenderInfo w"
  "getLocalRenderInfo (w\<lparr>remoteRenderInfos := y0\<rparr>) = getLocalRenderInfo w"
  "getLocalRenderInfo (w\<lparr>unparentedRenderInfos := y2\<rparr>) = getLocalRenderInfo w"
  "getLocalRenderInfo (w\<lparr>remoteStreamViews := y3\<rparr>) = getLocalRenderInfo w"
  "getLocalRenderInfo (w\<lparr>localStreamViews := y4\<rparr>) = getLocalRenderInfo w"
  "getLocalRenderInfo (w\<lparr>unparentedViews := y5\<rparr>) = getLocalRenderInfo w"
  "getLocalRenderInfo (w\<lparr>rendererCount := y6\<rparr>) = getLocalRenderInfo w"
  "getLocalRenderInfo (w\<lparr>disposeCalls := y7\<rparr>) = getLocalRenderInfo w"
  "getLocalRenderInfo (w\<lparr>console := y8\<rparr>) = getLocalRenderInfo w"
  "getLocalRenderInfo (w\<lparr>objectCount := y9\<rparr>) = getLocalRenderInfo w"
  by (rule getLocalRenderInfo_cong, simp)+

lemma getUnparentedRenderInfo_unread [simp]:
  "getUnparentedRenderInfo (setRemoteRenderInfo c p s xr st r w) = getUnparentedRenderInfo w"
  "getUnparentedRenderInfo (setLocalRenderInfo c x st r w) = getUnparentedRenderInfo w"
  "getUnparentedRenderInfo (setRemoteVideoStreamRendererView c p s v w) = getUnparentedRenderInfo w"
  "getUnparentedRenderInfo (setLocalVideoStreamRendererView c v w) = getUnparentedRenderInfo w"
  "getUnparentedRenderInfo (setDeviceManagerUnparentedView k u w) = getUnparentedRenderInfo w"
  "getUnparentedRenderInfo (deleteDeviceManagerUnparentedView k w) = getUnparentedRenderInfo w"
  "getUnparentedRenderInfo (dispose d w) = getUnparentedRenderInfo w"
  "getUnparentedRenderInfo (consoleWarn msg w) = getUnparentedRenderInfo w"
  "getUnparentedRenderInfo (disposeHeld h w) = getUnparentedRenderInfo w"
  "getUnparentedRenderInfo (w\<lparr>remoteRenderInfos := y0\<rparr>) = getUnparentedRenderInfo w"
  "getUnparentedRenderInfo (w\<lparr>localRenderInfos := y1\<rparr>) = getUnparentedRenderInfo w"
  "getUnparentedRenderInfo (w\<lparr>remoteStreamViews := y3\<rparr>) = getUnparentedRenderInfo w"
  "getUnparentedRenderInfo (w\<lparr>localStreamViews := y4\<rparr>) = getUnparentedRenderInfo w"
  "getUnparentedRenderInfo (w\<lparr>unparentedViews := y5\<rparr>) = getUnparentedRenderInfo w"
  "getUnparentedRenderInfo (w\<lparr>rendererCount := y6\<rparr>) = getUnparentedRenderInfo w"
  "getUnparentedRenderInfo (w\<lparr>disposeCalls := y7\<rparr>) = getUnparentedRenderInfo w"
  "getUnparentedRenderInfo (w\<lparr>console := y8\<rparr>) = getUnparentedRenderInfo w"
  "getUnparentedRenderInfo (w\<lparr>objectCount := y9\<rparr>) = getUnparentedRenderInfo w"
  by (rule getUnparentedRenderInfo_cong, simp)+

lemma remoteViewAt_unread [simp]:
  "remoteViewAt (setRemoteRenderInfo c p s xr st r w) = remoteViewAt w"
  "remoteViewAt (setLocalRenderInfo c x st r w) = remoteViewAt w"
  "remoteViewAt (setUnparentedRenderInfo k x st r w) = remoteViewAt w"
  "remoteViewAt (deleteUnparentedRenderInfo k w) = remoteViewAt w"
  "remoteViewAt (setLocalVideoStreamRendererView c v w) = remoteViewAt w"
  "remoteViewAt (setDeviceManagerUnparentedView k u w) = remoteViewAt w"
  "remoteViewAt (deleteDeviceManagerUnparentedView k w) = remoteViewAt w"
  "remoteViewAt (dispose d w) = remoteViewAt w"
  "remoteViewAt (consoleWarn msg w) = remoteViewAt w"
  "remoteViewAt (disposeHeld h w) = remoteViewAt w"
  "remoteViewAt (w\<lparr>remoteRenderInfos := y0\<rparr>) = remoteViewAt w"
  "remoteViewAt (w\<lparr>localRenderInfos := y1\<rparr>) = remoteViewAt w"
  "remoteViewAt (w\<lparr>unparentedRenderInfos := y2\<rparr>) = remoteViewAt w"
  "remoteViewAt (w\<lparr>localStreamViews := y4\<rparr>) = remoteViewAt w"
  "remoteViewAt (w\<lparr>unparentedViews := y5\<rparr>) = remoteViewAt w"
  "remoteViewAt (w\<lparr>rendererCount := y6\<rparr>) = remoteViewAt w"
  "remoteViewAt (w\<lparr>disposeCalls := y7\<rparr>) = remoteViewAt w"
  "remoteViewAt (w\<lparr>console := y8\<rparr>) = remoteViewAt w"
  "remoteViewAt (w\<lparr>objectCount := y9\<rparr>) = remoteViewAt w"
  by (rule remoteViewAt_cong, simp)+

lemma localViewAt_unread [simp]:
  "localViewAt (setRemoteRenderInfo c p s xr st r w) = localViewAt w"
  "localViewAt (setLocalRenderInfo c x st r w) = localViewAt w"
  "localViewAt (setUnparentedRenderInfo k x st r w) = localViewAt w"
  "localViewAt (deleteUnparentedRenderInfo k w) = localViewAt w"
  "localViewAt (setRemoteVideoStreamRendererView c p s v w) = localViewAt w"
  "localViewAt (setDeviceManagerUnparentedView k u w) = localViewAt w"
  "localViewAt (deleteDeviceManagerUnparentedView k w) = localViewAt w"
  "localViewAt (dispose d w) = localViewAt w"
  "localViewAt (consoleWarn msg w) = localViewAt w"
  "localViewAt (disposeHeld h w) = localViewAt w"
  "localViewAt (w\<lparr>remoteRenderInfos := y0\<rparr>) = localViewAt w"
  "localViewAt (w\<lparr>localRenderInfos := y1\<rparr>) = localViewAt w"
  "localViewAt (w\<lparr>unparentedRenderInfos := y2\<rparr>) = localViewAt w"
  "localViewAt (w\<lparr>remoteStreamViews := y3\<rparr>) = localViewAt w"
  "localViewAt (w\<lparr>unparentedViews := y5\<rparr>) = localViewAt w"
  "localViewAt (w\<lparr>rendererCount := y6\<rparr>) = localViewAt w"
  "localViewAt (w\<lparr>disposeCalls := y7\<rparr>) = localViewAt w"
  "localViewAt (w\<lparr>console := y8\<rparr>) = localViewAt w"
  "localViewAt (w\<lparr>objectCount := y9\<rparr>) = localViewAt w"
  by (rule localViewAt_cong, simp)+

subsection \<open>Lookup after a write\<close>

lemma getRemote_setRemote:
  "getRemoteRenderInfoForParticipant (setRemoteRenderInfo c p s x st r w) c' p' s' =
     (if c' = c \<and> p' = p \<and> s' = s then Some \<lparr>stream = x, status = st, renderer = r\<rparr>
      else getRemoteRenderInfoForParticipant w c' p' s')"
  by (auto simp: getRemoteRenderInfoForParticipant_def setRemoteRenderInfo_def Let_def
        AList.update_conv' split: option.splits)

lemma getLocal_setLocal:
  "getLocalRenderInfo (setLocalRenderInfo c x st r w) c' =
     (if c' = c then Some \<lparr>stream = x, status = st, renderer = r\<rparr> else getLocalRenderInfo w c')"
  by (simp add: getLocalRenderInfo_def setLocalRenderInfo_def AList.update_conv')

lemma getUnparented_setUnparented:
  "getUnparentedRenderInfo (setUnparentedRenderInfo k x st r w) k' =
     (if k' = k then Some \<lparr>stream = x, status = st, renderer = r\<rparr>
      else getUnparentedRenderInfo w k')"
  by (simp add: getUnparentedRenderInfo_def setUnparentedRenderInfo_def AList.update_conv')

lemma getUnparented_deleteUnparented:
  "getUnparentedRenderInfo (deleteUnparentedRenderInfo k w) k' =
     (if k' = k then None else getUnparentedRenderInfo w k')"
  by (simp add: getUnparentedRenderInfo_def deleteUnparentedRenderInfo_def AList.delete_conv')

lemma remoteViewAt_cleared:
  "remoteViewAt (setRemoteVideoStreamRendererView c p s None w) c p s = None"
  by (simp add: remoteViewAt_def setRemoteVideoStreamRendererView_def split: option.splits)

lemma localViewAt_cleared:
  "localViewAt (setLocalVideoStreamRendererView c None w) c = None"
  by (simp add: localViewAt_def setLocalVideoStreamRendererView_def split: option.splits)

subsection \<open>Up to the suspension\<close>

text \<open>A request on a key that is rendered, rendering or stopping returns at once.\<close>

lemma createViewRemoteVideo_busy:
  assumes "getRemoteRenderInfoForParticipant w c (case p of IdString k \<Rightarrow> k | IdKind k \<Rightarrow> flat k) (streamId s) = Some i"
      and "status i \<noteq> NotRendered"
  shows "snd (createViewRemoteVideo flat w c p s opts) = Returned None"
    and "onlyConsoleDiffers (fst (createViewRemoteVideo flat w c p s opts)) w"
  using assms
  by (cases "status i"; simp add: createViewRemoteVideo_def Let_def onlyConsoleDiffers_def consoleWarn_def)+

lemma createViewLocalVideo_busy:
  assumes "getLocalRenderInfo w c = Some i" and "status i \<noteq> NotRendered"
  shows "snd (createViewLocalVideo w c opts) = Returned None"
    and "onlyConsoleDiffers (fst (createViewLocalVideo w c opts)) w"
  using assms
  by (cases "status i"; simp add: createViewLocalVideo_def Let_def onlyConsoleDiffers_def consoleWarn_def)+

lemma createViewUnparentedVideo_busy:
  assumes "getUnparentedRenderInfo w k = Some i" and "status i \<noteq> NotRendered"
  shows "snd (createViewUnparentedVideo w k opts) = Returned None"
    and "onlyConsoleDiffers (fst (createViewUnparentedVideo w k opts)) w"
  using assms
  by (cases "status i"; simp add: createViewUnparentedVideo_def Let_def onlyConsoleDiffers_def consoleWarn_def)+

lemma snd_mapStarted_Returned: "snd (mapStarted g x) = Returned y \<longleftrightarrow> snd x = Returned y"
  by (cases "(g, x)" rule: mapStarted.cases) auto

lemma fst_mapStarted: "fst (mapStarted g x) = fst x"
  by (cases "(g, x)" rule: mapStarted.cases) auto

lemma createView_busy:
  assumes "requestKey flat callId participantId s = Some k"
      and "registryStatus w k = Some st" and "st \<noteq> NotRendered"
  shows "snd (createView flat w callId participantId s opts) = Returned None
       \<and> onlyConsoleDiffers (fst (createView flat w callId participantId s opts)) w"
  using assms
  by (auto simp: requestKey_def createView_def snd_mapStarted_Returned fst_mapStarted
        createViewRemoteVideo_busy createViewLocalVideo_busy createViewUnparentedVideo_busy
        split: if_splits)


lemma createViewRemoteVideo_idle:
  assumes "getRemoteRenderInfoForParticipant w c (case p of IdString k \<Rightarrow> k | IdKind k \<Rightarrow> flat k) (streamId s) = Some i"
      and "status i = NotRendered"
  shows "createViewRemoteVideo flat w c p s opts =
           (setRemoteRenderInfo c (case p of IdString k \<Rightarrow> k | IdKind k \<Rightarrow> flat k) (streamId s)
              (stream i) Rendering None (w\<lparr>rendererCount := Suc (rendererCount w)\<rparr>),
            Suspended \<lparr>rfCallId = c,
                       rfParticipantKey = (case p of IdString k \<Rightarrow> k | IdKind k \<Rightarrow> flat k),
                       rfStreamId = streamId s, rfStream = stream i,
                       rfRenderer = rendererCount w, rfOptions = opts\<rparr>)"
  using assms by (simp add: createViewRemoteVideo_def Let_def newVideoStreamRenderer_def)

lemma createViewRemoteVideo_SuspendedD:
  assumes "createViewRemoteVideo flat w c p s opts = (w1, Suspended f)"
  shows "\<exists>i. getRemoteRenderInfoForParticipant w c (case p of IdString k \<Rightarrow> k | IdKind k \<Rightarrow> flat k) (streamId s) = Some i
             \<and> status i = NotRendered"
  using assms
  by (cases "getRemoteRenderInfoForParticipant w c (case p of IdString k \<Rightarrow> k | IdKind k \<Rightarrow> flat k) (streamId s)")
     (auto simp: createViewRemoteVideo_def Let_def intro: RenderStatus.exhaust split: if_splits)

lemma createViewLocalVideo_idle:
  assumes "getLocalRenderInfo w c = Some i" and "status i = NotRendered"
  shows "createViewLocalVideo w c opts =
           (setLocalRenderInfo c (stream i) Rendering (Some (rendererCount w))
              (w\<lparr>rendererCount := Suc (rendererCount w)\<rparr>),
            Suspended \<lparr>lfCallId = c, lfStream = stream i, lfRenderer = rendererCount w,
                       lfOptions = opts\<rparr>)"
  using assms by (simp add: createViewLocalVideo_def Let_def newVideoStreamRenderer_def)

lemma createViewLocalVideo_SuspendedD:
  assumes "createViewLocalVideo w c opts = (w1, Suspended f)"
  shows "\<exists>i. getLocalRenderInfo w c = Some i \<and> status i = NotRendered"
  using assms
  by (cases "getLocalRenderInfo w c")
     (auto simp: createViewLocalVideo_def Let_def intro: RenderStatus.exhaust split: if_splits)

lemma createViewUnparentedVideo_idle:
  assumes "getUnparentedRenderInfo w k = None \<or> map_option status (getUnparentedRenderInfo w k) = Some NotRendered"
  shows "createViewUnparentedVideo w k opts =
           (setUnparentedRenderInfo k \<lparr>sdkSource = source k\<rparr> Rendering None
              (w\<lparr>rendererCount := Suc (rendererCount w)\<rparr>),
            Suspended \<lparr>ufKey = k, ufLocalVideoStream = \<lparr>sdkSource = source k\<rparr>,
                       ufRenderer = rendererCount w, ufOptions = opts\<rparr>)"
  using assms by (auto simp add: createViewUnparentedVideo_def Let_def newVideoStreamRenderer_def)

lemma createViewUnparentedVideo_SuspendedD:
  assumes "createViewUnparentedVideo w k opts = (w1, Suspended f)"
  shows "getUnparentedRenderInfo w k = None \<or> map_option status (getUnparentedRenderInfo w k) = Some NotRendered"
  using assms
  by (cases "getUnparentedRenderInfo w k")
     (auto simp: createViewUnparentedVideo_def Let_def intro: RenderStatus.exhaust split: if_splits)

lemma mapStarted_SuspendedD:
  "mapStarted g x = (w1, Suspended f) \<Longrightarrow> \<exists>f'. x = (w1, Suspended f') \<and> f = g f'"
  by (cases "(g, x)" rule: mapStarted.cases) auto


lemma createView_Suspended:
  assumes "requestKey flat callId participantId s = Some k"
      and "createView flat w callId participantId s opts = (w1, Suspended f)"
  shows "registryStatus w1 k = Some Rendering" and "rendererCount w1 = Suc (rendererCount w)"
    and "frameKey f = k" and "frameRenderer f = rendererCount w"
    and "disposeCalls w1 = disposeCalls w"
proof -
  consider (remote) "hasId s" "truthyCallId callId" "truthyParticipantId participantId"
    | (local) "\<not> hasId s" "truthyCallId callId"
    | (unparented) "\<not> hasId s" "\<not> truthyCallId callId"
    using assms(1) by (auto simp: requestKey_def split: if_splits)
  then have "registryStatus w1 k = Some Rendering \<and> rendererCount w1 = Suc (rendererCount w)
     \<and> frameKey f = k \<and> frameRenderer f = rendererCount w \<and> disposeCalls w1 = disposeCalls w"
  proof cases
    case remote
    let ?pk = "case the participantId of IdString k \<Rightarrow> k | IdKind k \<Rightarrow> flat k"
    from remote assms(1) have k: "k = RemoteKey (the callId) ?pk (streamId (theRemote s))"
      by (simp add: requestKey_def)
    from remote assms(2) obtain f' where f: "f = InRemote f'" and
      st: "createViewRemoteVideo flat w (the callId) (the participantId) (theRemote s) opts = (w1, Suspended f')"
      by (auto simp: createView_def dest: mapStarted_SuspendedD)
    from createViewRemoteVideo_SuspendedD [OF st] obtain i where
      i: "getRemoteRenderInfoForParticipant w (the callId) ?pk (streamId (theRemote s)) = Some i"
         "status i = NotRendered" by blast
    from st createViewRemoteVideo_idle [OF i, of opts] show ?thesis
      by (auto simp: k f getRemote_setRemote)
  next
    case local
    from local assms(1) have k: "k = LocalKey (the callId)" by (simp add: requestKey_def)
    from local assms(2) obtain f' where f: "f = InLocal f'" and
      st: "createViewLocalVideo w (the callId) opts = (w1, Suspended f')"
      by (auto simp: createView_def dest: mapStarted_SuspendedD)
    from createViewLocalVideo_SuspendedD [OF st] obtain i where
      i: "getLocalRenderInfo w (the callId) = Some i" "status i = NotRendered" by blast
    from st createViewLocalVideo_idle [OF i, of opts] show ?thesis
      by (auto simp: k f getLocal_setLocal)
  next
    case unparented
    from unparented assms(1) have k: "k = UnparentedKey (theLocal s)" by (simp add: requestKey_def)
    from unparented assms(2) obtain f' where f: "f = InUnparented f'" and
      st: "createViewUnparentedVideo w (theLocal s) opts = (w1, Suspended f')"
      by (auto simp: createView_def dest: mapStarted_SuspendedD)
    from st createViewUnparentedVideo_idle [OF createViewUnparentedVideo_SuspendedD [OF st], of opts]
    show ?thesis
      by (auto simp: k f getUnparented_setUnparented)
  qed
  then show "registryStatus w1 k = Some Rendering" and "rendererCount w1 = Suc (rendererCount w)"
    and "frameKey f = k" and "frameRenderer f = rendererCount w"
    and "disposeCalls w1 = disposeCalls w"
    by simp_all
qed

lemma resume_Failed:
  "snd (resume w f (Failed e)) = Rejected e \<and>
   registryStatus (fst (resume w f (Failed e))) (frameKey f) =
     (case frameKey f of UnparentedKey _ \<Rightarrow> None | _ \<Rightarrow> Some NotRendered) \<and>
   registryRenderer (fst (resume w f (Failed e))) (frameKey f) = None"
  by (cases f)
     (simp_all add: createViewRemoteVideo_resume_def createViewLocalVideo_resume_def
        createViewUnparentedVideo_resume_def Let_def getRemote_setRemote getLocal_setLocal
        getUnparented_deleteUnparented)

lemma resume_Created_commit:
  assumes "registryStatus w (frameKey f) = Some st" and "st \<noteq> Stopping"
  shows "snd (resume w f (Created v)) = Resolved (Some (frameRenderer f, v)) \<and>
         registryStatus (fst (resume w f (Created v))) (frameKey f) = Some Rendered \<and>
         registryRenderer (fst (resume w f (Created v))) (frameKey f) = Some (frameRenderer f) \<and>
         disposeCalls (fst (resume w f (Created v))) = disposeCalls w"
proof (cases f)
  case (InRemote g)
  with assms obtain i where
    "getRemoteRenderInfoForParticipant w (rfCallId g) (rfParticipantKey g) (rfStreamId g) = Some i"
    "status i \<noteq> Stopping" by auto
  then show ?thesis
    by (simp add: InRemote createViewRemoteVideo_resume_def Let_def getRemote_setRemote)
next
  case (InLocal g)
  with assms obtain i where "getLocalRenderInfo w (lfCallId g) = Some i" "status i \<noteq> Stopping"
    by auto
  then show ?thesis
    by (simp add: InLocal createViewLocalVideo_resume_def Let_def getLocal_setLocal)
next
  case (InUnparented g)
  with assms obtain i where "getUnparentedRenderInfo w (ufKey g) = Some i" "status i \<noteq> Stopping"
    by auto
  then show ?thesis
    by (simp add: InUnparented createViewUnparentedVideo_resume_def Let_def
          getUnparented_setUnparented)
qed

lemma onlyConsoleDiffersD:
  assumes "onlyConsoleDiffers w' w"
  shows "remoteRenderInfos w' = remoteRenderInfos w"
    and "localRenderInfos w' = localRenderInfos w"
    and "unparentedRenderInfos w' = unparentedRenderInfos w"
    and "remoteStreamViews w' = remoteStreamViews w"
    and "localStreamViews w' = localStreamViews w"
    and "unparentedViews w' = unparentedViews w"
    and "rendererCount w' = rendererCount w"
    and "disposeCalls w' = disposeCalls w"
proof -
  from assms have e: "w'\<lparr>console := console w\<rparr> = w" by (simp add: onlyConsoleDiffers_def)
  show "remoteRenderInfos w' = remoteRenderInfos w"
    using arg_cong [OF e, of remoteRenderInfos] by simp
  show "localRenderInfos w' = localRenderInfos w"
    using arg_cong [OF e, of localRenderInfos] by simp
  show "unparentedRenderInfos w' = unparentedRenderInfos w"
    using arg_cong [OF e, of unparentedRenderInfos] by simp
  show "remoteStreamViews w' = remoteStreamViews w"
    using arg_cong [OF e, of remoteStreamViews] by simp
  show "localStreamViews w' = localStreamViews w"
    using arg_cong [OF e, of localStreamViews] by simp
  show "unparentedViews w' = unparentedViews w"
    using arg_cong [OF e, of unparentedViews] by simp
  show "rendererCount w' = rendererCount w"
    using arg_cong [OF e, of rendererCount] by simp
  show "disposeCalls w' = disposeCalls w"
    using arg_cong [OF e, of disposeCalls] by simp
qed

lemma onlyConsoleDiffers_registryStatus:
  assumes "onlyConsoleDiffers w' w"
  shows "registryStatus w' k = registryStatus w k"
proof -
  note d = onlyConsoleDiffersD(1-3) [OF assms]
  note c = getRemoteRenderInfoForParticipant_cong [OF d(1)] getLocalRenderInfo_cong [OF d(2)]
    getUnparentedRenderInfo_cong [OF d(3)]
  show ?thesis by (cases k) (simp_all only: registryStatus.simps c)
qed

lemma requestKey_sample_remote:
  "requestKey sampleFlat (Some ''c1'') (Some (IdString ''p1'')) (RemoteStream remoteOne) =
     Some (RemoteKey ''c1'' ''p1'' 1)"
  by (simp add: requestKey_def remoteOne_def)

lemma createView_idleCall_remote:
  "createView sampleFlat idleCall (Some ''c1'') (Some (IdString ''p1'')) (RemoteStream remoteOne) None =
     (setRemoteRenderInfo ''c1'' ''p1'' 1 \<lparr>sdkStreamId = 1\<rparr> Rendering None
        (idleCall\<lparr>rendererCount := 1\<rparr>),
      Suspended (InRemote \<lparr>rfCallId = ''c1'', rfParticipantKey = ''p1'', rfStreamId = 1,
                           rfStream = \<lparr>sdkStreamId = 1\<rparr>, rfRenderer = 0, rfOptions = None\<rparr>))"
proof -
  have g: "getRemoteRenderInfoForParticipant idleCall ''c1'' ''p1'' 1 =
             Some \<lparr>stream = \<lparr>sdkStreamId = 1\<rparr>, status = NotRendered, renderer = None\<rparr>"
    by (simp add: getRemoteRenderInfoForParticipant_def idleCall_def emptyWorld_def)
  have r: "rendererCount idleCall = 0" by (simp add: idleCall_def emptyWorld_def)
  show ?thesis
    using createViewRemoteVideo_idle [where w = idleCall and c = "''c1''" and p = "IdString ''p1''"
        and flat = sampleFlat and s = remoteOne and opts = None] g r
    by (simp add: createView_def remoteOne_def)
qed

subsection \<open>Resuming into \<^verbatim>\<open>'Stopping'\<close>\<close>

text \<open>
  What each continuation does when it finds the entry \<^verbatim>\<open>'Stopping'\<close>. The call-scoped ones
  dispose the renderer they created; the unparented one does not.
\<close>

lemma createViewRemoteVideo_resume_Stopping:
  assumes "getRemoteRenderInfoForParticipant w (rfCallId f) (rfParticipantKey f) (rfStreamId f)
             = Some i"
      and "status i = Stopping"
  shows "createViewRemoteVideo_resume w f (Created v) =
           (setRemoteVideoStreamRendererView (rfCallId f) (rfParticipantKey f) (rfStreamId f) None
              (setRemoteRenderInfo (rfCallId f) (rfParticipantKey f) (rfStreamId f) (stream i)
                 NotRendered None (dispose (rfRenderer f) w)),
            Resolved None)"
  using assms by (simp add: createViewRemoteVideo_resume_def Let_def)

lemma createViewLocalVideo_resume_Stopping:
  assumes "getLocalRenderInfo w (lfCallId f) = Some i" and "status i = Stopping"
  shows "createViewLocalVideo_resume w f (Created v) =
           (setLocalVideoStreamRendererView (lfCallId f) None
              (setLocalRenderInfo (lfCallId f) (stream i) NotRendered None
                 (dispose (lfRenderer f) w)),
            Resolved None)"
  using assms by (simp add: createViewLocalVideo_resume_def Let_def)

lemma createViewUnparentedVideo_resume_Stopping:
  assumes "getUnparentedRenderInfo w (ufKey f) = Some i" and "status i = Stopping"
  shows "createViewUnparentedVideo_resume w f (Created v) =
           (deleteDeviceManagerUnparentedView (ufKey f) (deleteUnparentedRenderInfo (ufKey f) w),
            Resolved None)"
    and "disposeCalls (fst (createViewUnparentedVideo_resume w f (Created v))) = disposeCalls w"
  using assms by (simp_all add: createViewUnparentedVideo_resume_def Let_def)

lemma sample_fields:
  "disposeCalls emptyWorld = []" "rendererCount emptyWorld = 0"
  "disposeCalls idleCall = []" "rendererCount idleCall = 0"
  by (simp_all add: emptyWorld_def idleCall_def)


lemma createView_idleCall_local:
  "createView sampleFlat idleCall (Some ''c1'') None (LocalStream camera) None =
     (setLocalRenderInfo ''c1'' \<lparr>sdkSource = ''camera''\<rparr> Rendering (Some 0)
        (idleCall\<lparr>rendererCount := 1\<rparr>),
      Suspended (InLocal \<lparr>lfCallId = ''c1'', lfStream = \<lparr>sdkSource = ''camera''\<rparr>,
                          lfRenderer = 0, lfOptions = None\<rparr>))"
proof -
  have g: "getLocalRenderInfo idleCall ''c1'' =
             Some \<lparr>stream = \<lparr>sdkSource = ''camera''\<rparr>, status = NotRendered, renderer = None\<rparr>"
    by (simp add: getLocalRenderInfo_def idleCall_def emptyWorld_def)
  have r: "rendererCount idleCall = 0" by (simp add: idleCall_def emptyWorld_def)
  show ?thesis
    using createViewLocalVideo_idle [where w = idleCall and c = "''c1''" and opts = None] g r
    by (simp add: createView_def)
qed

lemma requestKey_sample_unparented:
  "requestKey sampleFlat None None (LocalStream camera) = Some (UnparentedKey camera)"
  by (simp add: requestKey_def)

lemma createView_emptyWorld_unparented:
  "createView sampleFlat emptyWorld None None (LocalStream camera) None =
     (setUnparentedRenderInfo camera \<lparr>sdkSource = ''camera''\<rparr> Rendering None
        (emptyWorld\<lparr>rendererCount := 1\<rparr>),
      Suspended (InUnparented \<lparr>ufKey = camera, ufLocalVideoStream = \<lparr>sdkSource = ''camera''\<rparr>,
                               ufRenderer = 0, ufOptions = None\<rparr>))"
proof -
  have g: "getUnparentedRenderInfo emptyWorld camera = None"
    by (simp add: getUnparentedRenderInfo_def emptyWorld_def)
  have r: "rendererCount emptyWorld = 0" "source camera = ''camera''"
    by (simp_all add: emptyWorld_def camera_def)
  show ?thesis
    using createViewUnparentedVideo_idle [where w = emptyWorld and k = camera and opts = None] g r
    by (simp add: createView_def)
qed

text \<open>
  The remote path through the same interleaving, for comparison: creation suspends with an
  entry \<^verbatim>\<open>'Rendering'\<close> that holds no renderer, \<^verbatim>\<open>disposeView\<close> only sets \<^verbatim>\<open>'Stopping'\<close>, and
  the resumed creation makes the one \<^verbatim>\<open>dispose()\<close> call.
\<close>

lemma remote_stop_during_creation_disposes_once:
  "(let started = createView sampleFlat idleCall (Some ''c1'') (Some (IdString ''p1''))
                    (RemoteStream remoteOne) None;
        f = \<lparr>rfCallId = ''c1'', rfParticipantKey = ''p1'', rfStreamId = 1,
             rfStream = \<lparr>sdkStreamId = 1\<rparr>, rfRenderer = 0, rfOptions = None\<rparr>;
        w2 = disposeView sampleFlat (fst started) (Some ''c1'') (Some (IdString ''p1''))
               (RemoteStream remoteOne);
        done = resume w2 (InRemote f) (Created ''view'')
    in snd started = Suspended (InRemote f) \<and>
       registryStatus (fst started) (RemoteKey ''c1'' ''p1'' 1) = Some Rendering \<and>
       registryRenderer (fst started) (RemoteKey ''c1'' ''p1'' 1) = None \<and>
       registryStatus w2 (RemoteKey ''c1'' ''p1'' 1) = Some Stopping \<and>
       disposeCalls w2 = [] \<and>
       snd done = Resolved None \<and>
       registryStatus (fst done) (RemoteKey ''c1'' ''p1'' 1) = Some NotRendered \<and>
       remoteViewAt (fst done) ''c1'' ''p1'' 1 = None \<and>
       disposeCalls (fst done) = [0])"
proof -
  have s: "streamId remoteOne = 1" by (simp add: remoteOne_def)
  show ?thesis
    by (simp add: Let_def createView_idleCall_remote disposeView_def s
        disposeViewRemoteVideo_def getRemote_setRemote disposeHeld_def dispose_def
        createViewRemoteVideo_resume_def sample_fields remoteViewAt_cleared)
qed

subsection \<open>Calls of \<^verbatim>\<open>getDeviceManager\<close> in sequence\<close>

lemma getDeviceManager_cached:
  assumes "proxySdkDeviceManager this = Some d0"
      and "proxyDeviceManager this = Some (deviceManagerDeclaratify d0)"
  shows "snd (getDeviceManager this a) = expectedAnswer d0 a"
    and "proxySdkDeviceManager (fst (getDeviceManager this a)) = Some d0"
    and "proxyDeviceManager (fst (getDeviceManager this a)) = Some (deviceManagerDeclaratify d0)"
  using assms
  by (auto simp: getDeviceManager_def withAsyncErrorTeedToState_def expectedAnswer_def
        split: SdkAnswer.splits)

lemma getDeviceManagerCalls_cached:
  assumes "proxySdkDeviceManager this = Some d0"
      and "proxyDeviceManager this = Some (deviceManagerDeclaratify d0)"
  shows "snd (getDeviceManagerCalls this as) = map (expectedAnswer d0) as \<and>
         proxySdkDeviceManager (fst (getDeviceManagerCalls this as)) = Some d0 \<and>
         proxyDeviceManager (fst (getDeviceManagerCalls this as)) =
           Some (deviceManagerDeclaratify d0)"
  using assms
proof (induction as arbitrary: this)
  case Nil
  then show ?case by simp
next
  case (Cons a as)
  from getDeviceManager_cached [OF Cons.prems, of a] Cons.IH [of "fst (getDeviceManager this a)"]
  show ?case by (simp add: case_prod_unfold Let_def)
qed

lemma getDeviceManager_threw_fresh:
  assumes "proxySdkDeviceManager this = None" and "proxyDeviceManager this = None"
  shows "snd (getDeviceManager this (SdkThrew e)) = Inl e"
    and "proxySdkDeviceManager (fst (getDeviceManager this (SdkThrew e))) = None"
    and "proxyDeviceManager (fst (getDeviceManager this (SdkThrew e))) = None"
  using assms by (simp_all add: getDeviceManager_def withAsyncErrorTeedToState_def)

lemma getDeviceManagerCalls_fresh:
  assumes "proxySdkDeviceManager this = None" and "proxyDeviceManager this = None"
  shows "snd (getDeviceManagerCalls this (map SdkThrew es @ SdkReturned d0 # as)) =
           map Inl es @ Inr (Some (deviceManagerDeclaratify d0)) # map (expectedAnswer d0) as \<and>
         proxySdkDeviceManager
           (fst (getDeviceManagerCalls this (map SdkThrew es @ SdkReturned d0 # as))) = Some d0 \<and>
         proxyDeviceManager
           (fst (getDeviceManagerCalls this (map SdkThrew es @ SdkReturned d0 # as))) =
           Some (deviceManagerDeclaratify d0)"
  using assms
proof (induction es arbitrary: this)
  case Nil
  have 1: "snd (getDeviceManager this (SdkReturned d0)) = Inr (Some (deviceManagerDeclaratify d0))"
    and 2: "proxySdkDeviceManager (fst (getDeviceManager this (SdkReturned d0))) = Some d0"
    and 3: "proxyDeviceManager (fst (getDeviceManager this (SdkReturned d0))) =
             Some (deviceManagerDeclaratify d0)"
    using Nil by (simp_all add: getDeviceManager_def withAsyncErrorTeedToState_def Let_def)
  from getDeviceManagerCalls_cached [OF 2 3, of as] 1
  show ?case by (simp add: case_prod_unfold Let_def)
next
  case (Cons e es)
  from getDeviceManager_threw_fresh [OF Cons.prems, of e]
    Cons.IH [of "fst (getDeviceManager this (SdkThrew e))"]
  show ?case by (simp add: case_prod_unfold Let_def)
qed

subsection \<open>Bulk disposal\<close>

lemma disposeViewRemoteVideo_lookup:
  "getRemoteRenderInfoForParticipant (disposeViewRemoteVideo flat w c (IdString pk) st) c' pk' sid' =
     (if c' = c \<and> pk' = pk \<and> sid' = streamId st
      then map_option afterDispose (getRemoteRenderInfoForParticipant w c pk (streamId st))
      else getRemoteRenderInfoForParticipant w c' pk' sid')"
  by (cases "getRemoteRenderInfoForParticipant w c pk (streamId st)")
     (auto simp: disposeViewRemoteVideo_def Let_def getRemote_setRemote afterDispose_def)

lemma disposeViewRemoteVideo_calls:
  "disposeCalls (disposeViewRemoteVideo flat w c (IdString pk) st) =
     disposeCalls w @ heldRenderer (getRemoteRenderInfoForParticipant w c pk (streamId st))"
  by (cases "getRemoteRenderInfoForParticipant w c pk (streamId st)")
     (auto simp: disposeViewRemoteVideo_def Let_def heldRenderer_def disposeHeld_def dispose_def
        split: option.splits)

lemma disposeViewRemoteVideo_others:
  "localRenderInfos (disposeViewRemoteVideo flat w c p st) = localRenderInfos w"
  "unparentedRenderInfos (disposeViewRemoteVideo flat w c p st) = unparentedRenderInfos w"
  "localStreamViews (disposeViewRemoteVideo flat w c p st) = localStreamViews w"
  "unparentedViews (disposeViewRemoteVideo flat w c p st) = unparentedViews w"
  "rendererCount (disposeViewRemoteVideo flat w c p st) = rendererCount w"
  "objectCount (disposeViewRemoteVideo flat w c p st) = objectCount w"
  by (simp_all add: disposeViewRemoteVideo_def Let_def split: option.splits)

lemma remoteViewAt_setView:
  "remoteViewAt (setRemoteVideoStreamRendererView c p s None w) c' p' s' =
     (if c' = c \<and> p' = p \<and> s' = s then None else remoteViewAt w c' p' s')"
  by (auto simp: remoteViewAt_def setRemoteVideoStreamRendererView_def split: option.splits)

lemma remoteViewAt_setRemote [simp]:
  "remoteViewAt (setRemoteRenderInfo c p s x st r w) = remoteViewAt w"
  "remoteViewAt (disposeHeld h w) = remoteViewAt w"
  by (rule remoteViewAt_cong, simp)+

lemma disposeViewRemoteVideo_view:
  "remoteViewAt (disposeViewRemoteVideo flat w c (IdString pk) st) c' pk' sid' =
     (if c' = c \<and> pk' = pk \<and> sid' = streamId st then None else remoteViewAt w c' pk' sid')"
  by (simp add: disposeViewRemoteVideo_def Let_def remoteViewAt_setView split: option.splits)

lemma disposeRemoteKeys_Cons:
  "disposeRemoteKeys flat c w (k # ks) =
     disposeRemoteKeys flat c
       (disposeViewRemoteVideo flat w c (IdString (fst k)) \<lparr>streamId = snd k, remoteView = None\<rparr>) ks"
  by (simp add: disposeRemoteKeys_def)

lemma disposeRemoteKeys_effect:
  assumes "distinct ks"
  shows "(\<forall>pk sid. getRemoteRenderInfoForParticipant (disposeRemoteKeys flat c w ks) c pk sid =
           (if (pk, sid) \<in> set ks
            then map_option afterDispose (getRemoteRenderInfoForParticipant w c pk sid)
            else getRemoteRenderInfoForParticipant w c pk sid))
       \<and> disposeCalls (disposeRemoteKeys flat c w ks) =
           disposeCalls w @
           concat (map (\<lambda>k. heldRenderer (getRemoteRenderInfoForParticipant w c (fst k) (snd k))) ks)
       \<and> (\<forall>pk sid. remoteViewAt (disposeRemoteKeys flat c w ks) c pk sid =
           (if (pk, sid) \<in> set ks then None else remoteViewAt w c pk sid))
       \<and> localRenderInfos (disposeRemoteKeys flat c w ks) = localRenderInfos w
       \<and> localStreamViews (disposeRemoteKeys flat c w ks) = localStreamViews w
       \<and> objectCount (disposeRemoteKeys flat c w ks) = objectCount w"
  using assms
proof (induction ks arbitrary: w)
  case Nil
  show ?case by (simp add: disposeRemoteKeys_def)
next
  case (Cons k ks)
  let ?w1 = "disposeViewRemoteVideo flat w c (IdString (fst k)) \<lparr>streamId = snd k, remoteView = None\<rparr>"
  from Cons.prems have d: "distinct ks" "k \<notin> set ks" by simp_all
  note IH = Cons.IH [OF d(1), of ?w1]
  have m: "map (\<lambda>k'. heldRenderer (getRemoteRenderInfoForParticipant ?w1 c (fst k') (snd k'))) ks =
          map (\<lambda>k'. heldRenderer (getRemoteRenderInfoForParticipant w c (fst k') (snd k'))) ks"
    using d(2) by (cases k) (auto simp: disposeViewRemoteVideo_lookup)
  have 1: "\<forall>pk sid. getRemoteRenderInfoForParticipant (disposeRemoteKeys flat c w (k # ks)) c pk sid =
           (if (pk, sid) \<in> set (k # ks)
            then map_option afterDispose (getRemoteRenderInfoForParticipant w c pk sid)
            else getRemoteRenderInfoForParticipant w c pk sid)"
    using IH d(2) by (cases k) (auto simp: disposeRemoteKeys_Cons disposeViewRemoteVideo_lookup)
  have 2: "disposeCalls (disposeRemoteKeys flat c w (k # ks)) =
           disposeCalls w @
           concat (map (\<lambda>k. heldRenderer (getRemoteRenderInfoForParticipant w c (fst k) (snd k))) (k # ks))"
    using IH m by (simp add: disposeRemoteKeys_Cons disposeViewRemoteVideo_calls)
  have 3: "\<forall>pk sid. remoteViewAt (disposeRemoteKeys flat c w (k # ks)) c pk sid =
           (if (pk, sid) \<in> set (k # ks) then None else remoteViewAt w c pk sid)"
    using IH d(2) by (cases k) (auto simp: disposeRemoteKeys_Cons disposeViewRemoteVideo_view)
  have 4: "localRenderInfos (disposeRemoteKeys flat c w (k # ks)) = localRenderInfos w
       \<and> localStreamViews (disposeRemoteKeys flat c w (k # ks)) = localStreamViews w
       \<and> objectCount (disposeRemoteKeys flat c w (k # ks)) = objectCount w"
    using IH by (simp add: disposeRemoteKeys_Cons disposeViewRemoteVideo_others)
  from 1 2 3 4 show ?case by blast
qed


lemma disposeRemoteKeys_append:
  "disposeRemoteKeys flat c w (xs @ ys) = disposeRemoteKeys flat c (disposeRemoteKeys flat c w xs) ys"
  by (simp add: disposeRemoteKeys_def)

lemma disposeView_remote_entry:
  assumes "c \<noteq> []" and "pk \<noteq> []" and "sdkStreamId (stream (snd e)) = fst e"
  shows "disposeView flat w (Some c) (Some (IdString pk))
           (RemoteStream (convertSdkRemoteStreamToDeclarativeRemoteStream (stream (snd e)))) =
         disposeViewRemoteVideo flat w c (IdString pk) \<lparr>streamId = fst e, remoteView = None\<rparr>"
  using assms by (simp add: disposeView_def convertSdkRemoteStreamToDeclarativeRemoteStream_def)

lemma disposeParticipantViews_keys:
  assumes "c \<noteq> []" and "pk \<noteq> []" and "\<forall>e \<in> set ss. sdkStreamId (stream (snd e)) = fst e"
  shows "disposeParticipantViews flat c pk w ss =
         disposeRemoteKeys flat c w (map (\<lambda>e. (pk, fst e)) ss)"
  using assms(3)
proof (induction ss arbitrary: w)
  case Nil
  show ?case by (simp add: disposeParticipantViews_def disposeRemoteKeys_def)
next
  case (Cons e ss)
  from Cons.prems have e: "sdkStreamId (stream (snd e)) = fst e"
    and r: "\<forall>e \<in> set ss. sdkStreamId (stream (snd e)) = fst e" by simp_all
  from Cons.IH [OF r] show ?case
    by (simp add: disposeParticipantViews_def disposeRemoteKeys_def
          disposeView_remote_entry [OF assms(1,2) e])
qed

lemma callKeys_Cons:
  "callKeys (entry # cs) = map (\<lambda>e. (fst entry, fst e)) (snd entry) @ callKeys cs"
  by (simp add: callKeys_def)

lemma disposeCall_keys:
  assumes "c \<noteq> []"
      and "\<forall>entry \<in> set cs. fst entry \<noteq> [] \<and>
             (\<forall>e \<in> set (snd entry). sdkStreamId (stream (snd e)) = fst e)"
  shows "foldl (\<lambda>w' entry. disposeParticipantViews flat c (fst entry) w' (snd entry)) w cs =
         disposeRemoteKeys flat c w (callKeys cs)"
  using assms(2)
proof (induction cs arbitrary: w)
  case Nil
  show ?case by (simp add: callKeys_def disposeRemoteKeys_def)
next
  case (Cons entry cs)
  from Cons.prems have a: "fst entry \<noteq> []"
    "\<forall>e \<in> set (snd entry). sdkStreamId (stream (snd e)) = fst e"
    and r: "\<forall>entry \<in> set cs. fst entry \<noteq> [] \<and>
             (\<forall>e \<in> set (snd entry). sdkStreamId (stream (snd e)) = fst e)"
    by simp_all
  show ?case
    by (simp add: callKeys_Cons disposeRemoteKeys_append Cons.IH [OF r]
          disposeParticipantViews_keys [OF assms(1) a])
qed

lemma set_callKeys:
  "(pk, sid) \<in> set (callKeys cs) \<longleftrightarrow> (\<exists>ss. (pk, ss) \<in> set cs \<and> sid \<in> fst ` set ss)"
proof
  assume "(pk, sid) \<in> set (callKeys cs)"
  then obtain entry e where "entry \<in> set cs" "e \<in> set (snd entry)" "pk = fst entry" "sid = fst e"
    by (auto simp: callKeys_def)
  then have "(pk, snd entry) \<in> set cs" "sid \<in> fst ` set (snd entry)" by auto
  then show "\<exists>ss. (pk, ss) \<in> set cs \<and> sid \<in> fst ` set ss" by blast
next
  assume "\<exists>ss. (pk, ss) \<in> set cs \<and> sid \<in> fst ` set ss"
  then obtain ss e where "(pk, ss) \<in> set cs" "e \<in> set ss" "sid = fst e" by auto
  then show "(pk, sid) \<in> set (callKeys cs)" by (force simp: callKeys_def)
qed

lemma distinct_callKeys:
  assumes "distinct (map fst cs)" and "\<forall>entry \<in> set cs. distinct (map fst (snd entry))"
  shows "distinct (callKeys cs)"
  using assms
proof (induction cs)
  case Nil
  show ?case by (simp add: callKeys_def)
next
  case (Cons entry cs)
  have 1: "distinct (map (\<lambda>e. (fst entry, fst e)) (snd entry))"
    using Cons.prems(2) by (simp add: distinct_map inj_on_def)
  have 2: "set (map (\<lambda>e. (fst entry, fst e)) (snd entry)) \<inter> set (callKeys cs) = {}"
    using Cons.prems(1) by (auto simp: set_callKeys) (metis fst_conv image_eqI)
  from Cons 1 2 show ?case by (simp add: callKeys_Cons)
qed


lemma getRemote_via_call:
  "getRemoteRenderInfoForParticipant w c pk sid =
     (case getRemoteRenderInfoForCall w c of
        None \<Rightarrow> None
      | Some cs \<Rightarrow> (case map_of cs pk of None \<Rightarrow> None | Some ss \<Rightarrow> map_of ss sid))"
  by (simp add: getRemoteRenderInfoForParticipant_def getRemoteRenderInfoForCall_def)

lemma lookup_listed:
  assumes "distinct (map fst cs)" and "\<forall>entry \<in> set cs. distinct (map fst (snd entry))"
      and "entry \<in> set cs" and "e \<in> set (snd entry)"
  shows "(case map_of cs (fst entry) of None \<Rightarrow> None | Some ss \<Rightarrow> map_of ss (fst e)) = Some (snd e)"
proof -
  from assms(1,3) have "map_of cs (fst entry) = Some (snd entry)"
    by (cases entry) simp
  moreover from assms(2,3,4) have "map_of (snd entry) (fst e) = Some (snd e)"
    by (cases e) simp
  ultimately show ?thesis by simp
qed

lemma lookup_unlisted:
  assumes "(pk, sid) \<notin> set (callKeys cs)"
  shows "(case map_of cs pk of None \<Rightarrow> None | Some ss \<Rightarrow> map_of ss sid) = None"
proof (cases "map_of cs pk")
  case None
  then show ?thesis by simp
next
  case (Some ss)
  then have "(pk, ss) \<in> set cs" by (rule map_of_SomeD)
  with assms have "sid \<notin> fst ` set ss" by (auto simp: set_callKeys)
  then have "map_of ss sid = None" by (simp add: map_of_eq_None_iff)
  with Some show ?thesis by simp
qed

lemma held_callKeys:
  assumes "\<forall>entry \<in> set cs. \<forall>e \<in> set (snd entry). F (fst entry) (fst e) = Some (snd e)"
  shows "concat (map (\<lambda>k. heldRenderer (F (fst k) (snd k))) (callKeys cs)) =
         concat (map (\<lambda>entry. concat (map (\<lambda>e. heldRenderer (Some (snd e))) (snd entry))) cs)"
  using assms
proof (induction cs)
  case Nil
  show ?case by (simp add: callKeys_def)
next
  case (Cons entry cs)
  have h: "concat (map (\<lambda>e. heldRenderer (F (fst entry) (fst e))) (snd entry)) =
        concat (map (\<lambda>e. heldRenderer (Some (snd e))) (snd entry))"
    using Cons.prems by (auto intro!: arg_cong [where f = concat])
  from Cons.prems have "\<forall>entry \<in> set cs. \<forall>e \<in> set (snd entry). F (fst entry) (fst e) = Some (snd e)"
    by simp
  from Cons.IH [OF this] show ?case by (simp add: callKeys_Cons comp_def h)
qed

lemma disposeViewLocalVideo_effect:
  "getLocalRenderInfo (disposeViewLocalVideo w c) c = map_option afterDispose (getLocalRenderInfo w c)
   \<and> disposeCalls (disposeViewLocalVideo w c) = disposeCalls w @ heldRenderer (getLocalRenderInfo w c)
   \<and> localViewAt (disposeViewLocalVideo w c) c = None
   \<and> remoteRenderInfos (disposeViewLocalVideo w c) = remoteRenderInfos w
   \<and> remoteStreamViews (disposeViewLocalVideo w c) = remoteStreamViews w"
proof (cases "getLocalRenderInfo w c")
  case None
  then show ?thesis
    by (simp add: disposeViewLocalVideo_def Let_def heldRenderer_def localViewAt_cleared)
next
  case (Some i)
  then show ?thesis
    by (cases "renderer i")
       (simp_all add: disposeViewLocalVideo_def Let_def getLocal_setLocal afterDispose_def
          heldRenderer_def disposeHeld_def dispose_def localViewAt_cleared)
qed


lemma disposeAll_remote_part:
  fixes flat :: "'k \<Rightarrow> string" and w :: World and c :: string
  assumes "trackedCall w c"
  defines "w1 \<equiv> (case getRemoteRenderInfoForCall w c of
                    None \<Rightarrow> w
                  | Some callStreams \<Rightarrow>
                      foldl (\<lambda>w' entry. disposeParticipantViews flat c (fst entry) w' (snd entry))
                        w callStreams)"
  shows "(\<forall>pk sid. getRemoteRenderInfoForParticipant w1 c pk sid =
            map_option afterDispose (getRemoteRenderInfoForParticipant w c pk sid))
       \<and> disposeCalls w1 =
           disposeCalls w @
           concat (map (\<lambda>entry. concat (map (\<lambda>e. heldRenderer (Some (snd e))) (snd entry)))
                     (case getRemoteRenderInfoForCall w c of None \<Rightarrow> [] | Some cs \<Rightarrow> cs))
       \<and> (\<forall>pk sid. getRemoteRenderInfoForParticipant w c pk sid \<noteq> None \<longrightarrow>
              remoteViewAt w1 c pk sid = None)
       \<and> localRenderInfos w1 = localRenderInfos w
       \<and> localStreamViews w1 = localStreamViews w
       \<and> objectCount w1 = objectCount w"
proof (cases "getRemoteRenderInfoForCall w c")
  case None
  then show ?thesis by (simp add: w1_def getRemote_via_call)
next
  case (Some cs)
  from assms(1) Some have c: "c \<noteq> []" and d: "distinct (map fst cs)"
    and e: "\<forall>entry \<in> set cs. distinct (map fst (snd entry))"
    and f: "\<forall>entry \<in> set cs. fst entry \<noteq> [] \<and>
               (\<forall>e \<in> set (snd entry). sdkStreamId (stream (snd e)) = fst e)"
    by (simp_all add: trackedCall_def)
  have w1: "w1 = disposeRemoteKeys flat c w (callKeys cs)"
    by (simp add: w1_def Some disposeCall_keys [OF c f])
  note E = disposeRemoteKeys_effect [OF distinct_callKeys [OF d e], of flat c w]
  have g: "getRemoteRenderInfoForParticipant w c pk sid =
             (case map_of cs pk of None \<Rightarrow> None | Some ss \<Rightarrow> map_of ss sid)" for pk sid
    by (simp add: getRemote_via_call Some)
  have u: "(pk, sid) \<notin> set (callKeys cs) \<Longrightarrow> getRemoteRenderInfoForParticipant w c pk sid = None"
    for pk sid
    by (simp add: g lookup_unlisted)
  have 1: "\<forall>pk sid. getRemoteRenderInfoForParticipant w1 c pk sid =
            map_option afterDispose (getRemoteRenderInfoForParticipant w c pk sid)"
    using E u by (auto simp: w1)
  have "\<forall>entry \<in> set cs. \<forall>e \<in> set (snd entry).
          getRemoteRenderInfoForParticipant w c (fst entry) (fst e) = Some (snd e)"
    using lookup_listed [OF d e] by (simp add: g)
  from held_callKeys [of cs "getRemoteRenderInfoForParticipant w c", OF this] E
  have 2: "disposeCalls w1 =
           disposeCalls w @
           concat (map (\<lambda>entry. concat (map (\<lambda>e. heldRenderer (Some (snd e))) (snd entry))) cs)"
    by (simp add: w1)
  have 3: "\<forall>pk sid. getRemoteRenderInfoForParticipant w c pk sid \<noteq> None \<longrightarrow>
              remoteViewAt w1 c pk sid = None"
    using E u by (auto simp: w1)
  from 1 2 3 E show ?thesis by (simp add: Some w1)
qed


lemma disposeView_local_entry:
  assumes "c \<noteq> []"
  shows "disposeView flat w (Some c) None (LocalStream s) = disposeViewLocalVideo w c"
  using assms by (simp add: disposeView_def)

lemmas eval_defs =
  disposeAllViewsFromCall_def disposeParticipantViews_def disposeView_def
  disposeViewRemoteVideo_def disposeViewLocalVideo_def
  getRemoteRenderInfoForCall_def getRemoteRenderInfoForParticipant_def getLocalRenderInfo_def
  setRemoteRenderInfo_def setLocalRenderInfo_def setRemoteVideoStreamRendererView_def
  setLocalVideoStreamRendererView_def disposeHeld_def dispose_def
  convertSdkRemoteStreamToDeclarativeRemoteStream_def
  convertSdkLocalStreamToDeclarativeLocalStream_def Let_def

text \<open>
  \<^verbatim>\<open>disposeView\<close> changes neither the keys of the remote registry, nor their order, nor the
  stream of any entry: the folds of \<open>disposeAllViewsFromCall\<close> over the lists found at the
  start visit what the source's loops over the live \<^verbatim>\<open>Map\<close>s visit.
\<close>

lemma update_keeps_shape:
  assumes "map_of xs k = Some v0" and "f v = f v0"
  shows "map (\<lambda>e. (fst e, f (snd e))) (AList.update k v xs) = map (\<lambda>e. (fst e, f (snd e))) xs"
  using assms by (induction xs) (auto split: if_splits)

lemma setRemoteRenderInfo_keeps_shape:
  assumes "getRemoteRenderInfoForParticipant w c pk sid = Some i"
  shows "remoteShape (setRemoteRenderInfo c pk sid (stream i) st r w) = remoteShape w"
proof -
  from assms obtain ps ss where ps: "map_of (remoteRenderInfos w) c = Some ps"
    and ss: "map_of ps pk = Some ss" and i: "map_of ss sid = Some i"
    by (auto simp: getRemoteRenderInfoForParticipant_def split: option.splits)
  let ?ss = "AList.update sid \<lparr>stream = stream i, status = st, renderer = r\<rparr> ss"
  let ?ps = "AList.update pk ?ss ps"
  have 1: "map (\<lambda>e. (fst e, stream (snd e))) ?ss = map (\<lambda>e. (fst e, stream (snd e))) ss"
    by (rule update_keeps_shape [OF i]) simp
  have 2: "map (\<lambda>p. (fst p, map (\<lambda>e. (fst e, stream (snd e))) (snd p))) ?ps =
           map (\<lambda>p. (fst p, map (\<lambda>e. (fst e, stream (snd e))) (snd p))) ps"
    by (rule update_keeps_shape [OF ss]) (rule 1)
  have 3: "map (\<lambda>c. (fst c, map (\<lambda>p. (fst p, map (\<lambda>e. (fst e, stream (snd e))) (snd p))) (snd c)))
             (AList.update c ?ps (remoteRenderInfos w)) =
           map (\<lambda>c. (fst c, map (\<lambda>p. (fst p, map (\<lambda>e. (fst e, stream (snd e))) (snd p))) (snd c)))
             (remoteRenderInfos w)"
    by (rule update_keeps_shape [OF ps]) (rule 2)
  show ?thesis
    using 3 by (simp add: remoteShape_def setRemoteRenderInfo_def Let_def ps ss)
qed

lemma remoteShape_cong:
  "remoteRenderInfos w' = remoteRenderInfos w \<Longrightarrow> remoteShape w' = remoteShape w"
  by (simp add: remoteShape_def)

lemma disposeViewRemoteVideo_keeps_shape:
  "remoteShape (disposeViewRemoteVideo flat w c p st) = remoteShape w"
proof -
  let ?pk = "case p of IdString k \<Rightarrow> k | IdKind k \<Rightarrow> flat k"
  let ?w1 = "setRemoteVideoStreamRendererView c ?pk (streamId st) None w"
  have s1: "remoteShape ?w1 = remoteShape w" by (rule remoteShape_cong) simp
  show ?thesis
  proof (cases "getRemoteRenderInfoForParticipant ?w1 c ?pk (streamId st)")
    case None
    then show ?thesis by (simp add: disposeViewRemoteVideo_def Let_def s1)
  next
    case (Some i)
    have "remoteShape (disposeHeld h (setRemoteRenderInfo c ?pk (streamId st) (stream i) x None ?w1))
            = remoteShape w" for h x
      using setRemoteRenderInfo_keeps_shape [OF Some, of x None] s1
        remoteShape_cong [of "disposeHeld h (setRemoteRenderInfo c ?pk (streamId st) (stream i) x None ?w1)"
           "setRemoteRenderInfo c ?pk (streamId st) (stream i) x None ?w1"]
      by simp
    with Some show ?thesis by (simp add: disposeViewRemoteVideo_def Let_def)
  qed
qed

lemma disposeView_keeps_remote_shape:
  "remoteShape (disposeView flat w callId participantId s) = remoteShape w"
proof -
  have l: "remoteShape (disposeViewLocalVideo w c) = remoteShape w" for c
    by (rule remoteShape_cong) (simp add: disposeViewLocalVideo_effect)
  have u: "remoteShape (disposeViewUnparentedVideo w k) = remoteShape w" for k
    by (rule remoteShape_cong)
       (simp add: disposeViewUnparentedVideo_def Let_def split: option.splits)
  have c: "remoteShape (consoleWarn m w) = remoteShape w" for m
    by (rule remoteShape_cong) simp
  show ?thesis
    by (simp add: disposeView_def disposeViewRemoteVideo_keeps_shape l u c)
qed

subsection \<open>Claims\<close>

text \<open>
  Claim C1, evaluated where the code departs from it. A view is requested for the unparented
  stream \<open>camera\<close> in the empty world; the call suspends having constructed renderer 0.
  \<^verbatim>\<open>disposeView\<close> for \<open>camera\<close> turns the entry to \<^verbatim>\<open>'Stopping'\<close>. The creation then
  resumes with a view: it returns empty and deletes the entry, and no renderer has received
  a \<^verbatim>\<open>dispose()\<close> call, so renderer 0 is never disposed.
\<close>

theorem unparented_stop_during_creation_leaks_renderer:
  "(let started = createView sampleFlat emptyWorld None None (LocalStream camera) None;
        f = \<lparr>ufKey = camera, ufLocalVideoStream = \<lparr>sdkSource = ''camera''\<rparr>,
             ufRenderer = 0, ufOptions = None\<rparr>;
        w2 = disposeView sampleFlat (fst started) None None (LocalStream camera);
        done = resume w2 (InUnparented f) (Created ''view'')
    in snd started = Suspended (InUnparented f) \<and>
       rendererCount (fst started) = 1 \<and>
       registryStatus w2 (UnparentedKey camera) = Some Stopping \<and>
       snd done = Resolved None \<and>
       registryStatus (fst done) (UnparentedKey camera) = None \<and>
       disposeCalls (fst done) = [])"
  by (simp add: Let_def createView_emptyWorld_unparented disposeView_def
        disposeViewUnparentedVideo_def getUnparented_setUnparented
        createViewUnparentedVideo_resume_def getUnparented_deleteUnparented sample_fields
        disposeHeld_def)

text \<open>
  Claim C2, evaluated where the code departs from it. \<^verbatim>\<open>createView\<close> for the local stream of
  call \<open>c1\<close> suspends having written the entry with status \<^verbatim>\<open>'Rendering'\<close> together with
  the renderer it constructed, not with an empty handle.
\<close>

theorem createViewLocalVideo_rendering_holds_renderer:
  "(let started = createView sampleFlat idleCall (Some ''c1'') None (LocalStream camera) None
    in snd started = Suspended (InLocal \<lparr>lfCallId = ''c1'', lfStream = \<lparr>sdkSource = ''camera''\<rparr>,
                          lfRenderer = 0, lfOptions = None\<rparr>) \<and>
       registryStatus (fst started) (LocalKey ''c1'') = Some Rendering \<and>
       registryRenderer (fst started) (LocalKey ''c1'') = Some 0)"
  by (simp add: Let_def createView_idleCall_local getLocal_setLocal)

text \<open>
  Claim C3, evaluated where the code departs from it. A view is requested for the local
  stream of call \<open>c1\<close>; while the creation is suspended \<^verbatim>\<open>disposeView\<close> finds the entry
  \<^verbatim>\<open>'Rendering'\<close> holding renderer 0, sets it to \<^verbatim>\<open>'Stopping'\<close> and disposes renderer 0
  itself; the creation then resumes and disposes renderer 0 again.
\<close>

theorem local_stop_during_creation_disposes_twice:
  "(let started = createView sampleFlat idleCall (Some ''c1'') None (LocalStream camera) None;
        f = \<lparr>lfCallId = ''c1'', lfStream = \<lparr>sdkSource = ''camera''\<rparr>,
             lfRenderer = 0, lfOptions = None\<rparr>;
        w2 = disposeView sampleFlat (fst started) (Some ''c1'') None (LocalStream camera);
        done = resume w2 (InLocal f) (Created ''view'')
    in snd started = Suspended (InLocal f) \<and>
       rendererCount (fst started) = 1 \<and>
       registryStatus w2 (LocalKey ''c1'') = Some Stopping \<and>
       disposeCalls w2 = [0] \<and>
       snd done = Resolved None \<and>
       disposeCalls (fst done) = [0, 0])"
  by (simp add: Let_def createView_idleCall_local disposeView_def
        disposeViewLocalVideo_def getLocal_setLocal disposeHeld_def dispose_def
        createViewLocalVideo_resume_def sample_fields)

text \<open>
  Claim C4. A \<^verbatim>\<open>createView\<close> for a key whose registry entry is \<^verbatim>\<open>'Rendered'\<close>,
  \<^verbatim>\<open>'Rendering'\<close> or \<^verbatim>\<open>'Stopping'\<close> returns an empty result; it constructs no renderer and
  leaves registry and State Store as they are (only the console may differ). Hence, of two
  calls for the same key, the second made while the first is suspended, the first constructs
  one renderer, the second returns empty and changes nothing, and when the first then resumes
  with a view the key's entry is \<^verbatim>\<open>'Rendered'\<close> with that one renderer.
\<close>

theorem createView_busy_key_returns_empty:
  assumes "requestKey flat callId participantId s = Some k"
  shows "(registryStatus w k \<in> {Some Rendered, Some Rendering, Some Stopping} \<longrightarrow>
            snd (createView flat w callId participantId s opts) = Returned None \<and>
            onlyConsoleDiffers (fst (createView flat w callId participantId s opts)) w)
       \<and> (\<forall>w1 f. createView flat w callId participantId s opts = (w1, Suspended f) \<longrightarrow>
            rendererCount w1 = Suc (rendererCount w) \<and>
            snd (createView flat w1 callId participantId s opts') = Returned None \<and>
            onlyConsoleDiffers (fst (createView flat w1 callId participantId s opts')) w1 \<and>
            (\<forall>v. snd (resume (fst (createView flat w1 callId participantId s opts')) f (Created v)) = Resolved (Some (rendererCount w, v))
               \<and> registryStatus (fst (resume (fst (createView flat w1 callId participantId s opts')) f (Created v))) k = Some Rendered
               \<and> registryRenderer (fst (resume (fst (createView flat w1 callId participantId s opts')) f (Created v))) k = Some (rendererCount w)))"
proof (intro conjI impI allI)
  assume "registryStatus w k \<in> {Some Rendered, Some Rendering, Some Stopping}"
  then obtain st where "registryStatus w k = Some st" "st \<noteq> NotRendered" by auto
  from createView_busy [OF assms this]
  show "snd (createView flat w callId participantId s opts) = Returned None"
    and "onlyConsoleDiffers (fst (createView flat w callId participantId s opts)) w" by simp_all
next
  fix w1 f v
  assume st: "createView flat w callId participantId s opts = (w1, Suspended f)"
  note S = createView_Suspended [OF assms st]
  from S show "rendererCount w1 = Suc (rendererCount w)" by simp
  have b: "snd (createView flat w1 callId participantId s opts') = Returned None
       \<and> onlyConsoleDiffers (fst (createView flat w1 callId participantId s opts')) w1"
    by (rule createView_busy [OF assms S(1)]) simp
  then show "snd (createView flat w1 callId participantId s opts') = Returned None"
    and "onlyConsoleDiffers (fst (createView flat w1 callId participantId s opts')) w1" by simp_all
  let ?w2 = "fst (createView flat w1 callId participantId s opts')"
  from b have "?w2\<lparr>console := console w1\<rparr> = w1" by (simp add: onlyConsoleDiffers_def)
  then have "registryStatus ?w2 k = registryStatus w1 k"
    by (intro onlyConsoleDiffers_registryStatus) (simp add: onlyConsoleDiffers_def)
  with S have r: "registryStatus ?w2 (frameKey f) = Some Rendering" by simp
  from resume_Created_commit [OF r, of v] S
  show "snd (resume ?w2 f (Created v)) = Resolved (Some (rendererCount w, v))"
    and "registryStatus (fst (resume ?w2 f (Created v))) k = Some Rendered"
    and "registryRenderer (fst (resume ?w2 f (Created v))) k = Some (rendererCount w)"
    by simp_all
qed


theorem createView_busy_key_returns_empty_witness:
  "registryStatus busyCall (RemoteKey ''c1'' ''p1'' 1) = Some Rendered \<and>
   snd (createView sampleFlat busyCall (Some ''c1'') (Some (IdString ''p1''))
          (RemoteStream remoteOne) None) = Returned None \<and>
   onlyConsoleDiffers
     (fst (createView sampleFlat busyCall (Some ''c1'') (Some (IdString ''p1''))
             (RemoteStream remoteOne) None)) busyCall \<and>
   snd (createView sampleFlat idleCall (Some ''c1'') (Some (IdString ''p1''))
          (RemoteStream remoteOne) None) =
     Suspended (InRemote \<lparr>rfCallId = ''c1'', rfParticipantKey = ''p1'', rfStreamId = 1,
                           rfStream = \<lparr>sdkStreamId = 1\<rparr>, rfRenderer = 0, rfOptions = None\<rparr>) \<and>
   snd (createView sampleFlat
          (fst (createView sampleFlat idleCall (Some ''c1'') (Some (IdString ''p1''))
                  (RemoteStream remoteOne) None))
          (Some ''c1'') (Some (IdString ''p1'')) (RemoteStream remoteOne) None) = Returned None"
proof -
  have b: "registryStatus busyCall (RemoteKey ''c1'' ''p1'' 1) = Some Rendered"
    by (simp add: getRemoteRenderInfoForParticipant_def busyCall_def emptyWorld_def)
  from createView_busy_key_returns_empty [OF requestKey_sample_remote, where w = busyCall and opts = None and opts' = None] b
  have 1: "snd (createView sampleFlat busyCall (Some ''c1'') (Some (IdString ''p1''))
          (RemoteStream remoteOne) None) = Returned None \<and>
   onlyConsoleDiffers
     (fst (createView sampleFlat busyCall (Some ''c1'') (Some (IdString ''p1''))
             (RemoteStream remoteOne) None)) busyCall" by simp
  from createView_busy_key_returns_empty [OF requestKey_sample_remote, where w = idleCall and opts = None and opts' = None] createView_idleCall_remote
  have 2: "snd (createView sampleFlat
          (fst (createView sampleFlat idleCall (Some ''c1'') (Some (IdString ''p1''))
                  (RemoteStream remoteOne) None))
          (Some ''c1'') (Some (IdString ''p1'')) (RemoteStream remoteOne) None) = Returned None"
    by simp
  from b 1 2 createView_idleCall_remote show ?thesis by simp
qed

text \<open>
  Claim C5. A remote-in-call \<^verbatim>\<open>createView\<close> whose entry exists with status \<^verbatim>\<open>'NotRendered'\<close>
  suspends. When the creation succeeds and the entry is then still present and not
  \<^verbatim>\<open>'Stopping'\<close>, the call writes status \<^verbatim>\<open>'Rendered'\<close> with the renderer into the registry,
  passes the converted view to the State Store's setter for (callId, participantKey,
  streamId), which shows it there when the snapshot knows the stream, and returns the
  renderer and the view.
\<close>

theorem createViewRemoteVideo_commits_rendered:
  assumes "getRemoteRenderInfoForParticipant w callId pk sid = Some renderInfo"
      and "status renderInfo = NotRendered"
      and "pk = (case participantId of IdString k \<Rightarrow> k | IdKind k \<Rightarrow> flat k)"
      and "sid = streamId s"
      and "getRemoteRenderInfoForParticipant w' callId pk sid = Some refreshed"
      and "status refreshed \<noteq> Stopping"
  shows
    "(let f = \<lparr>rfCallId = callId, rfParticipantKey = pk, rfStreamId = sid,
               rfStream = stream renderInfo, rfRenderer = rendererCount w, rfOptions = opts\<rparr>;
          done = createViewRemoteVideo_resume w' f (Created v)
      in snd (createViewRemoteVideo flat w callId participantId s opts) = Suspended f \<and>
         snd done = Resolved (Some (rendererCount w, v)) \<and>
         getRemoteRenderInfoForParticipant (fst done) callId pk sid =
           Some \<lparr>stream = stream refreshed, status = Rendered,
                 renderer = Some (rendererCount w)\<rparr> \<and>
         fst done =
           setRemoteVideoStreamRendererView callId pk sid
             (Some (convertFromSDKToDeclarativeVideoStreamRendererView v))
             (setRemoteRenderInfo callId pk sid (stream refreshed) Rendered
                (Some (rendererCount w)) w') \<and>
         (remoteStreamViews w' (callId, pk, sid) \<noteq> None \<longrightarrow>
            remoteViewAt (fst done) callId pk sid =
              Some (convertFromSDKToDeclarativeVideoStreamRendererView v)))"
proof -
  from assms(1,2) have 1: "createViewRemoteVideo flat w callId participantId s opts =
     (setRemoteRenderInfo callId pk sid (stream renderInfo) Rendering None
        (w\<lparr>rendererCount := Suc (rendererCount w)\<rparr>),
      Suspended \<lparr>rfCallId = callId, rfParticipantKey = pk, rfStreamId = sid,
               rfStream = stream renderInfo, rfRenderer = rendererCount w, rfOptions = opts\<rparr>)"
    unfolding assms(3,4) by (rule createViewRemoteVideo_idle)
  have 2: "remoteStreamViews w' (callId, pk, sid) \<noteq> None \<Longrightarrow>
       remoteViewAt (setRemoteVideoStreamRendererView callId pk sid (Some x) w'') callId pk sid = Some x"
    if "remoteStreamViews w'' = remoteStreamViews w'" for x w''
    using that by (auto simp: remoteViewAt_def setRemoteVideoStreamRendererView_def)
  show ?thesis
    using assms(5,6) 1 2
    by (simp add: Let_def createViewRemoteVideo_resume_def getRemote_setRemote)
qed

theorem createViewRemoteVideo_commits_rendered_witness:
  "snd (createViewRemoteVideo sampleFlat idleCall ''c1'' (IdString ''p1'') remoteOne None) =
     Suspended \<lparr>rfCallId = ''c1'', rfParticipantKey = ''p1'', rfStreamId = 1,
                rfStream = \<lparr>sdkStreamId = 1\<rparr>, rfRenderer = 0, rfOptions = None\<rparr> \<and>
   snd (createViewRemoteVideo_resume afterRemoteStart
          \<lparr>rfCallId = ''c1'', rfParticipantKey = ''p1'', rfStreamId = 1,
            rfStream = \<lparr>sdkStreamId = 1\<rparr>, rfRenderer = 0, rfOptions = None\<rparr>
          (Created ''view'')) = Resolved (Some (0, ''view'')) \<and>
   getRemoteRenderInfoForParticipant
     (fst (createViewRemoteVideo_resume afterRemoteStart
          \<lparr>rfCallId = ''c1'', rfParticipantKey = ''p1'', rfStreamId = 1,
            rfStream = \<lparr>sdkStreamId = 1\<rparr>, rfRenderer = 0, rfOptions = None\<rparr>
          (Created ''view''))) ''c1'' ''p1'' 1 =
     Some \<lparr>stream = \<lparr>sdkStreamId = 1\<rparr>, status = Rendered, renderer = Some 0\<rparr> \<and>
   fst (createViewRemoteVideo_resume afterRemoteStart
          \<lparr>rfCallId = ''c1'', rfParticipantKey = ''p1'', rfStreamId = 1,
            rfStream = \<lparr>sdkStreamId = 1\<rparr>, rfRenderer = 0, rfOptions = None\<rparr>
          (Created ''view'')) =
     setRemoteVideoStreamRendererView ''c1'' ''p1'' 1 (Some (DeclarativeView ''view''))
       (setRemoteRenderInfo ''c1'' ''p1'' 1 \<lparr>sdkStreamId = 1\<rparr> Rendered (Some 0)
          afterRemoteStart) \<and>
   remoteViewAt
     (fst (createViewRemoteVideo_resume afterRemoteStart
          \<lparr>rfCallId = ''c1'', rfParticipantKey = ''p1'', rfStreamId = 1,
            rfStream = \<lparr>sdkStreamId = 1\<rparr>, rfRenderer = 0, rfOptions = None\<rparr>
          (Created ''view''))) ''c1'' ''p1'' 1 = Some (DeclarativeView ''view'')"
proof -
  have a: "getRemoteRenderInfoForParticipant idleCall ''c1'' ''p1'' 1 =
             Some \<lparr>stream = \<lparr>sdkStreamId = 1\<rparr>, status = NotRendered, renderer = None\<rparr>"
    by (simp add: getRemoteRenderInfoForParticipant_def idleCall_def emptyWorld_def)
  have b: "getRemoteRenderInfoForParticipant afterRemoteStart ''c1'' ''p1'' 1 =
             Some \<lparr>stream = \<lparr>sdkStreamId = 1\<rparr>, status = Rendering, renderer = None\<rparr>"
    by (simp add: afterRemoteStart_def getRemote_setRemote)
  have c: "remoteStreamViews afterRemoteStart (''c1'', ''p1'', 1) \<noteq> None"
    by (simp add: afterRemoteStart_def idleCall_def emptyWorld_def)
  have d: "rendererCount idleCall = 0" by (simp add: idleCall_def emptyWorld_def)
  show ?thesis
    using createViewRemoteVideo_commits_rendered [OF a _ _ _ b, where participantId = "IdString ''p1''" and flat = sampleFlat
                and s = remoteOne and opts = None and v = "''view''"] c d
    by (auto simp add: Let_def remoteOne_def convertFromSDKToDeclarativeVideoStreamRendererView_def)
qed

text \<open>
  Claim C6. When the suspended renderer creation of any \<^verbatim>\<open>createView\<close> fails, whatever the
  world is by then, the promise is rejected with that failure, and the registry allows a
  retry: a call-scoped key has status \<^verbatim>\<open>'NotRendered'\<close> and no renderer, an unparented
  stream has no entry at all.
\<close>

theorem createView_failure_propagates_and_reverts:
  assumes "requestKey flat callId participantId s = Some k"
      and "createView flat w callId participantId s opts = (w1, Suspended f)"
  shows "snd (resume w' f (Failed e)) = Rejected e \<and>
         registryStatus (fst (resume w' f (Failed e))) k =
           (case k of UnparentedKey u \<Rightarrow> None | _ \<Rightarrow> Some NotRendered) \<and>
         registryRenderer (fst (resume w' f (Failed e))) k = None \<and>
         (\<forall>u. k = UnparentedKey u \<longrightarrow>
              u \<notin> fst ` set (unparentedRenderInfos (fst (resume w' f (Failed e)))))"
proof -
  from createView_Suspended(3) [OF assms] have k: "frameKey f = k" .
  have "\<forall>u. k = UnparentedKey u \<longrightarrow>
              u \<notin> fst ` set (unparentedRenderInfos (fst (resume w' f (Failed e))))"
  proof (intro allI impI)
    fix u assume "k = UnparentedKey u"
    with k obtain g where f: "f = InUnparented g" "ufKey g = u" by (cases f) auto
    show "u \<notin> fst ` set (unparentedRenderInfos (fst (resume w' f (Failed e))))"
      using AList.delete_notin_dom [of u "unparentedRenderInfos w'"]
      by (simp add: f createViewUnparentedVideo_resume_def Let_def deleteUnparentedRenderInfo_def)
  qed
  with resume_Failed [of w' f e] k show ?thesis by simp
qed

theorem createView_failure_propagates_and_reverts_witness:
  "snd (resume emptyWorld
          (InUnparented \<lparr>ufKey = camera, ufLocalVideoStream = \<lparr>sdkSource = ''camera''\<rparr>,
                          ufRenderer = 0, ufOptions = None\<rparr>) (Failed ''boom'')) = Rejected ''boom'' \<and>
   registryStatus (fst (resume emptyWorld
          (InUnparented \<lparr>ufKey = camera, ufLocalVideoStream = \<lparr>sdkSource = ''camera''\<rparr>,
                          ufRenderer = 0, ufOptions = None\<rparr>) (Failed ''boom''))) (UnparentedKey camera) = None \<and>
   snd (resume idleCall
          (InRemote \<lparr>rfCallId = ''c1'', rfParticipantKey = ''p1'', rfStreamId = 1,
                           rfStream = \<lparr>sdkStreamId = 1\<rparr>, rfRenderer = 0, rfOptions = None\<rparr>) (Failed ''boom'')) = Rejected ''boom'' \<and>
   registryStatus (fst (resume idleCall
          (InRemote \<lparr>rfCallId = ''c1'', rfParticipantKey = ''p1'', rfStreamId = 1,
                           rfStream = \<lparr>sdkStreamId = 1\<rparr>, rfRenderer = 0, rfOptions = None\<rparr>) (Failed ''boom''))) (RemoteKey ''c1'' ''p1'' 1) = Some NotRendered"
  using createView_failure_propagates_and_reverts [OF requestKey_sample_unparented createView_emptyWorld_unparented,
             where w' = emptyWorld and e = "''boom''"]
        createView_failure_propagates_and_reverts [OF requestKey_sample_remote createView_idleCall_remote,
             where w' = idleCall and e = "''boom''"]
  by simp

text \<open>
  Claim C7 asks that an invalid combination be surfaced to the caller. The code returns to
  the caller exactly what a well-formed request for an untracked stream returns: an empty
  result. Here a stream with an id and a call id but no participant id, and a well-formed
  request for a call the registry does not track.
\<close>

theorem invalid_request_not_surfaced_counterexample:
  "snd (createView sampleFlat idleCall (Some ''c1'') None (RemoteStream remoteOne) None) = Returned None
   \<and> snd (createView sampleFlat idleCall (Some ''c9'') (Some (IdString ''p1'')) (RemoteStream remoteOne) None) = Returned None"
  by (simp add: createView_def createViewRemoteVideo_def idleCall_def emptyWorld_def remoteOne_def
       getRemoteRenderInfoForParticipant_def consoleWarn_def)

text \<open>
  Claim C7 as the code has it. For every combination other than the three accepted ones,
  \<^verbatim>\<open>createView\<close> returns at once an empty result and \<^verbatim>\<open>disposeView\<close> returns; the only
  effect of either is the console warning, so registry and State Store are untouched. The
  invalidity is not raised to the caller.
\<close>

theorem invalid_request_is_silent_noop:
  assumes "\<not> (hasId s \<and> truthyCallId callId \<and> truthyParticipantId participantId)"
      and "\<not> (\<not> hasId s \<and> truthyCallId callId)"
      and "\<not> (\<not> hasId s \<and> \<not> truthyCallId callId)"
  shows "createView flat w callId participantId s options =
           (consoleWarn ''Invalid combination of parameters'' w, Returned None)
       \<and> disposeView flat w callId participantId s =
           consoleWarn ''Invalid combination of parameters'' w
       \<and> onlyConsoleDiffers (consoleWarn ''Invalid combination of parameters'' w) w"
  using assms by (auto simp add: createView_def disposeView_def onlyConsoleDiffers_def consoleWarn_def)

theorem invalid_request_is_silent_noop_witness:
  "createView sampleFlat idleCall (Some ''c1'') None (RemoteStream remoteOne) None =
           (consoleWarn ''Invalid combination of parameters'' idleCall, Returned None)
       \<and> disposeView sampleFlat idleCall (Some ''c1'') None (RemoteStream remoteOne) =
           consoleWarn ''Invalid combination of parameters'' idleCall
       \<and> onlyConsoleDiffers (consoleWarn ''Invalid combination of parameters'' idleCall) idleCall"
  using invalid_request_is_silent_noop [of "RemoteStream remoteOne" "Some ''c1''" None sampleFlat idleCall None] by simp

text \<open>
  Claim C8 says that no registry entry of the call remains after
  \<^verbatim>\<open>disposeAllViewsFromCall\<close>, and that the dispose protocol is applied to the local entry.
  In \<open>busyCall\<close> both remote entries and the local entry are still there afterwards, with
  status \<^verbatim>\<open>'NotRendered'\<close> or \<^verbatim>\<open>'Stopping'\<close>. In \<open>stoppingLocal\<close> the local entry holds no
  renderer and is left \<^verbatim>\<open>'Stopping'\<close>, where \<^verbatim>\<open>disposeView\<close> would set \<^verbatim>\<open>'NotRendered'\<close>.
\<close>

theorem disposeAllViewsFromCall_keeps_entries_counterexample:
  "getRemoteRenderInfoForCall (disposeAllViewsFromCall sampleFlat busyCall ''c1'') ''c1'' =
     Some [(''p1'', [(1, \<lparr>stream = \<lparr>sdkStreamId = 1\<rparr>, status = NotRendered, renderer = None\<rparr>),
                     (2, \<lparr>stream = \<lparr>sdkStreamId = 2\<rparr>, status = Stopping, renderer = None\<rparr>)])] \<and>
   getLocalRenderInfo (disposeAllViewsFromCall sampleFlat busyCall ''c1'') ''c1'' =
     Some \<lparr>stream = \<lparr>sdkSource = ''camera''\<rparr>, status = NotRendered, renderer = None\<rparr> \<and>
   getLocalRenderInfo (disposeAllViewsFromCall sampleFlat stoppingLocal ''c1'') ''c1'' =
     Some \<lparr>stream = \<lparr>sdkSource = ''camera''\<rparr>, status = Stopping, renderer = None\<rparr> \<and>
   getLocalRenderInfo (disposeView sampleFlat stoppingLocal (Some ''c1'') None (LocalStream camera))
       ''c1'' =
     Some \<lparr>stream = \<lparr>sdkSource = ''camera''\<rparr>, status = NotRendered, renderer = None\<rparr>"
  by (simp add: eval_defs busyCall_def stoppingLocal_def emptyWorld_def)

text \<open>
  Claim C8 as the code has it. For a tracked call, \<^verbatim>\<open>disposeAllViewsFromCall\<close> applies the
  dispose protocol to every remote entry of the call, and to the local entry when it holds a
  renderer. Every entry stays in the registry: each remote entry, and the local entry if it
  held a renderer, ends with no renderer and with status \<^verbatim>\<open>'NotRendered'\<close> (\<^verbatim>\<open>'Stopping'\<close> if
  it was \<^verbatim>\<open>'Rendering'\<close>); a local entry without renderer is left as it is. The views of
  the entries disposed are cleared from the State Store. The \<^verbatim>\<open>dispose()\<close> calls made are
  exactly one for each renderer the call's entries held.
\<close>

theorem disposeAllViewsFromCall_stops_every_view:
  fixes flat :: "'k \<Rightarrow> string"
  assumes "trackedCall w callId"
  shows "getRemoteRenderInfoForParticipant (disposeAllViewsFromCall flat w callId) callId pk sid =
           map_option afterDispose (getRemoteRenderInfoForParticipant w callId pk sid)
       \<and> getLocalRenderInfo (disposeAllViewsFromCall flat w callId) callId =
           map_option (\<lambda>i. if renderer i = None then i else afterDispose i)
             (getLocalRenderInfo w callId)
       \<and> disposeCalls (disposeAllViewsFromCall flat w callId) =
           disposeCalls w @ renderersHeldByCall w callId
       \<and> (getRemoteRenderInfoForParticipant w callId pk sid \<noteq> None \<longrightarrow>
            remoteViewAt (disposeAllViewsFromCall flat w callId) callId pk sid = None)
       \<and> (heldRenderer (getLocalRenderInfo w callId) \<noteq> [] \<longrightarrow>
            localViewAt (disposeAllViewsFromCall flat w callId) callId = None)"
proof -
  define w1 where "w1 = (case getRemoteRenderInfoForCall w callId of
                    None \<Rightarrow> w
                  | Some callStreams \<Rightarrow>
                      foldl (\<lambda>w' entry. disposeParticipantViews flat callId (fst entry) w' (snd entry))
                        w callStreams)"
  note R = disposeAll_remote_part [OF assms, of flat, folded w1_def]
  from assms have c: "callId \<noteq> []" by (simp add: trackedCall_def)
  from R have l1: "getLocalRenderInfo w1 callId = getLocalRenderInfo w callId"
    by (simp add: getLocalRenderInfo_def)
  have all: "disposeAllViewsFromCall flat w callId =
          (case getLocalRenderInfo w callId of
             None \<Rightarrow> w1
           | Some l \<Rightarrow>
               if renderer l \<noteq> None
               then disposeViewLocalVideo (w1\<lparr>objectCount := Suc (objectCount w1)\<rparr>) callId
               else w1)"
    by (simp add: disposeAllViewsFromCall_def Let_def w1_def [symmetric] l1
          convertSdkLocalStreamToDeclarativeLocalStream_def disposeView_local_entry [OF c]
          split: option.splits)
  show ?thesis
  proof (cases "getLocalRenderInfo w callId")
    case None
    with R show ?thesis
      by (simp add: all renderersHeldByCall_def heldRenderer_def l1 [symmetric])
  next
    case (Some l)
    show ?thesis
    proof (cases "renderer l")
      case None
      with Some R l1 show ?thesis
        by (simp add: all renderersHeldByCall_def heldRenderer_def)
    next
      case (Some r)
      let ?w2 = "w1\<lparr>objectCount := Suc (objectCount w1)\<rparr>"
      note L = disposeViewLocalVideo_effect [of ?w2 callId]
      have g: "getRemoteRenderInfoForParticipant (disposeViewLocalVideo ?w2 callId) =
               getRemoteRenderInfoForParticipant w1"
        using L by (intro getRemoteRenderInfoForParticipant_cong) simp
      have v: "remoteViewAt (disposeViewLocalVideo ?w2 callId) = remoteViewAt w1"
        using L by (intro remoteViewAt_cong) simp
      from \<open>getLocalRenderInfo w callId = Some l\<close> Some R L l1 g v show ?thesis
        by (simp add: all renderersHeldByCall_def heldRenderer_def)
    qed
  qed
qed

theorem disposeAllViewsFromCall_stops_every_view_witness:
  "trackedCall busyCall ''c1'' \<and>
   getRemoteRenderInfoForParticipant (disposeAllViewsFromCall sampleFlat busyCall ''c1'')
       ''c1'' ''p1'' 1 =
     Some \<lparr>stream = \<lparr>sdkStreamId = 1\<rparr>, status = NotRendered, renderer = None\<rparr> \<and>
   getRemoteRenderInfoForParticipant (disposeAllViewsFromCall sampleFlat busyCall ''c1'')
       ''c1'' ''p1'' 2 =
     Some \<lparr>stream = \<lparr>sdkStreamId = 2\<rparr>, status = Stopping, renderer = None\<rparr> \<and>
   getLocalRenderInfo (disposeAllViewsFromCall sampleFlat busyCall ''c1'') ''c1'' =
     Some \<lparr>stream = \<lparr>sdkSource = ''camera''\<rparr>, status = NotRendered, renderer = None\<rparr> \<and>
   disposeCalls (disposeAllViewsFromCall sampleFlat busyCall ''c1'') = [7, 8] \<and>
   remoteViewAt (disposeAllViewsFromCall sampleFlat busyCall ''c1'') ''c1'' ''p1'' 1 = None \<and>
   localViewAt (disposeAllViewsFromCall sampleFlat busyCall ''c1'') ''c1'' = None"
proof -
  have t: "trackedCall busyCall ''c1''"
    by (simp add: trackedCall_def getRemoteRenderInfoForCall_def busyCall_def emptyWorld_def)
  have f: "getRemoteRenderInfoForParticipant busyCall ''c1'' ''p1'' 1 =
             Some \<lparr>stream = \<lparr>sdkStreamId = 1\<rparr>, status = Rendered, renderer = Some 7\<rparr>"
    "getRemoteRenderInfoForParticipant busyCall ''c1'' ''p1'' 2 =
             Some \<lparr>stream = \<lparr>sdkStreamId = 2\<rparr>, status = Rendering, renderer = None\<rparr>"
    "getLocalRenderInfo busyCall ''c1'' =
             Some \<lparr>stream = \<lparr>sdkSource = ''camera''\<rparr>, status = Rendered, renderer = Some 8\<rparr>"
    "disposeCalls busyCall = []"
    "renderersHeldByCall busyCall ''c1'' = [7, 8]"
    by (simp_all add: getRemoteRenderInfoForParticipant_def getLocalRenderInfo_def
          renderersHeldByCall_def heldRenderer_def getRemoteRenderInfoForCall_def
          busyCall_def emptyWorld_def)
  from disposeAllViewsFromCall_stops_every_view [OF t, where flat = sampleFlat and pk = "''p1''" and sid = 1]
       disposeAllViewsFromCall_stops_every_view [OF t, where flat = sampleFlat and pk = "''p1''" and sid = 2] t f
  show ?thesis by (simp add: afterDispose_def heldRenderer_def)
qed

text \<open>
  Claim C9. In every sequence of \<^verbatim>\<open>getDeviceManager\<close> calls on a new stateful client, up to
  the first call the SDK answers with an instance the SDK's own failures are passed on; that
  call returns the wrapper of the instance; every later call the SDK answers with the same
  instance returns that cached wrapper, and every later call it answers with another instance
  fails with the mismatch error. The client keeps the first instance throughout: it does not
  adopt the other one.
\<close>

theorem getDeviceManager_single_instance:
  "snd (getDeviceManagerCalls newProxyCallClient
          (map SdkThrew errs @ SdkReturned firstDm # later)) =
     map Inl errs @ Inr (Some (deviceManagerDeclaratify firstDm)) #
     map (\<lambda>a. case a of
                 SdkThrew e \<Rightarrow> Inl e
               | SdkReturned d \<Rightarrow>
                   if d = firstDm then Inr (Some (deviceManagerDeclaratify firstDm))
                   else Inl multipleDeviceManagerError) later \<and>
   proxySdkDeviceManager
     (fst (getDeviceManagerCalls newProxyCallClient
             (map SdkThrew errs @ SdkReturned firstDm # later))) = Some firstDm \<and>
   proxyDeviceManager
     (fst (getDeviceManagerCalls newProxyCallClient
             (map SdkThrew errs @ SdkReturned firstDm # later))) =
     Some (deviceManagerDeclaratify firstDm)"
proof -
  have e: "expectedAnswer firstDm =
             (\<lambda>a. case a of
                 SdkThrew e \<Rightarrow> Inl e
               | SdkReturned d \<Rightarrow>
                   if d = firstDm then Inr (Some (deviceManagerDeclaratify firstDm))
                   else Inl multipleDeviceManagerError)"
    by (simp add: fun_eq_iff expectedAnswer_def)
  have "proxySdkDeviceManager newProxyCallClient = None"
    and "proxyDeviceManager newProxyCallClient = None"
    by (simp_all add: newProxyCallClient_def)
  from getDeviceManagerCalls_fresh [OF this, of errs firstDm later] show ?thesis
    unfolding e .
qed

theorem getDeviceManager_single_instance_witness:
  "snd (getDeviceManagerCalls newProxyCallClient
          [SdkReturned 4, SdkReturned 4, SdkReturned 5, SdkReturned 4]) =
     [Inr (Some (DeclarativeDeviceManager 4)), Inr (Some (DeclarativeDeviceManager 4)),
      Inl multipleDeviceManagerError, Inr (Some (DeclarativeDeviceManager 4))]"
  using getDeviceManager_single_instance
          [where errs = "[]" and firstDm = 4
             and later = "[SdkReturned 4, SdkReturned 5, SdkReturned 4]"]
  by (simp add: deviceManagerDeclaratify_def)

text \<open>
  Claim C10. \<^verbatim>\<open>disposeView\<close> with a call id and a stream without id is
  \<^verbatim>\<open>disposeViewLocalVideo\<close> of that call id: the stream (and the participant id) play no part,
  so any two such requests do the same; the call's local view is cleared and its entry holds
  no renderer afterwards, the renderer it held having received one \<^verbatim>\<open>dispose()\<close>.
\<close>

theorem disposeView_local_ignores_stream:
  assumes "callId \<noteq> []"
  shows "disposeView flat w (Some callId) participantId (LocalStream s) =
           disposeViewLocalVideo w callId
       \<and> disposeView flat w (Some callId) participantId (LocalStream s) =
           disposeView flat w (Some callId) participantId' (LocalStream s')
       \<and> localViewAt (disposeView flat w (Some callId) participantId (LocalStream s)) callId = None
       \<and> registryRenderer (disposeView flat w (Some callId) participantId (LocalStream s))
             (LocalKey callId) = None
       \<and> disposeCalls (disposeView flat w (Some callId) participantId (LocalStream s)) =
           disposeCalls w @ (case registryRenderer w (LocalKey callId) of None \<Rightarrow> [] | Some r \<Rightarrow> [r])"
  using assms
  by (auto simp add: disposeView_def disposeViewLocalVideo_def Let_def localViewAt_def
        setLocalVideoStreamRendererView_def getLocal_setLocal disposeHeld_def dispose_def
        getLocalRenderInfo_def setLocalRenderInfo_def AList.update_conv' split: option.splits)

theorem disposeView_local_ignores_stream_witness:
  "disposeView sampleFlat busyCall (Some ''c1'') None (LocalStream camera) =
     disposeView sampleFlat busyCall (Some ''c1'') None (LocalStream otherCamera)
   \<and> localViewAt (disposeView sampleFlat busyCall (Some ''c1'') None (LocalStream camera)) ''c1''
       = None
   \<and> disposeCalls (disposeView sampleFlat busyCall (Some ''c1'') None (LocalStream camera)) = [8]"
proof -
  have r: "registryRenderer busyCall (LocalKey ''c1'') = Some 8" "disposeCalls busyCall = []"
    by (simp_all add: getLocalRenderInfo_def busyCall_def emptyWorld_def)
  have n: "''c1'' \<noteq> []" by simp
  from disposeView_local_ignores_stream [OF n, where flat = sampleFlat and w = busyCall
      and participantId = None and participantId' = None and s = camera and s' = otherCamera] r
  show ?thesis by auto
qed

end
